theory Spec2Isabelle
  imports Complex_Main
begin

section \<open>Python values, strings and exceptions\<close>

text \<open>
  Strings are byte lists in UTF-8; the pipeline only concatenates and compares them.
  A float is carried as its \<open>repr\<close> text: the code passes floats through (generation
  options) and never computes with one of them.
\<close>

datatype pyval =
    VNone
  | VBool bool
  | VInt int
  | VFloat string
  | VStr string
  | VList "pyval list"

definition nl :: string where
  "nl = [CHR 0x0A]"

definition squote :: string where
  "squote = [CHR 0x27]"

function str_nat :: "nat \<Rightarrow> string" where
  "str_nat n = (if n < 10 then [''0123456789'' ! n]
                else str_nat (n div 10) @ [''0123456789'' ! (n mod 10)])"
  by pat_completeness auto
termination
  by (relation "measure id") auto

declare str_nat.simps [simp del]

definition str_int :: "int \<Rightarrow> string" where
  "str_int i = (if i < 0 then ''-'' @ str_nat (nat (- i)) else str_nat (nat i))"

text \<open>\<open>sep.join(xs)\<close>.\<close>

fun join :: "string \<Rightarrow> string list \<Rightarrow> string" where
  "join sep [] = []"
| "join sep [x] = x"
| "join sep (x # y # ys) = x @ sep @ join sep (y # ys)"

text \<open>
  The exceptions the code can meet, all subclasses of \<open>Exception\<close>: a type and the
  text \<open>str(e)\<close>. An unbound local variable is kept apart with the variable's name,
  since the interpreter's wording of that message changes between versions.
\<close>

datatype exc_type =
    Exception
  | KeyError
  | TypeError
  | ValueError
  | ReadTimeout
  | ConnectTimeout
  | ConnectionError
  | HTTPError
  | RequestException
  | JSONDecodeError
  | OtherError

datatype py_exception =
    PyExc exc_type string
  | UnboundLocalError string

section \<open>Source labels (rag.py, sources\_to\_markdown)\<close>

text \<open>
  A retrieved passage: its text and its metadata dictionary. \<open>metadata.get("source")\<close>
  is \<open>None\<close> when the key is absent, so a label is a \<open>string option\<close>.
\<close>

record passage =
  p_text :: string
  p_metadata :: "(string \<times> string) list"

definition passage_sources :: "passage list \<Rightarrow> string option list" where
  "passage_sources passages = map (\<lambda>p. map_of (p_metadata p) ''source'') passages"

text \<open>One line of the numbered list; \<open>source and source != "Unknown"\<close> is the test.\<close>

definition md_line :: "nat \<Rightarrow> string option \<Rightarrow> string" where
  "md_line i source =
     (case source of
        None \<Rightarrow> str_nat i @ ''. Unknown source''
      | Some s \<Rightarrow>
          if s \<noteq> [] \<and> s \<noteq> ''Unknown'' then str_nat i @ ''. **'' @ s @ ''**''
          else str_nat i @ ''. Unknown source'')"

text \<open>The loop over \<open>enumerate(sources, 1)\<close>, from index \<open>i\<close>.\<close>

fun md_sources :: "nat \<Rightarrow> string option list \<Rightarrow> string list" where
  "md_sources i [] = []"
| "md_sources i (source # rest) = md_line i source # md_sources (Suc i) rest"

definition sources_to_markdown :: "string option list \<Rightarrow> string" where
  "sources_to_markdown sources =
     (if sources = [] then ''No sources available''
      else join nl (md_sources 1 sources))"

section \<open>Collaborators\<close>

text \<open>
  What the orchestrator and the generation client do not own is a parameter:
  the model server behind \<open>requests.post\<close> (it may answer differently at every call, so it
  is indexed by the call's place in the run), the \<open>OLLAMA_URL\<close> setting, the retriever
  (the one in indexer.py catches its own exceptions and returns an empty list instead),
  the wall-clock time each agent call took, the built-in \<open>repr\<close> of a string (it follows
  the Unicode tables) and the name under which the interpreter reports \<open>generate\<close>.
\<close>

type_synonym kwargs = "(string \<times> pyval) list"

type_synonym payload = "string \<rightharpoonup> pyval"

datatype call_site = StepCall nat | FallbackCall

text \<open>
  An HTTP exchange either raises inside \<open>requests.post\<close>, or yields a response: status
  code, reason phrase, and the body. \<open>BadBody t msg\<close> is a body for which
  \<open>resp.json()["response"]\<close> or reading the reply raises \<open>t\<close> with text \<open>msg\<close>
  (not JSON, or not an object of strings).
\<close>

datatype http_body = BadBody exc_type string | JsonObject "(string \<times> string) list"

datatype http_result = Raised exc_type string | Response nat string http_body

record env =
  http_post :: "call_site \<Rightarrow> string \<Rightarrow> payload \<Rightarrow> pyval \<Rightarrow> http_result"
  ollama_url :: string
  retrieve :: "string \<Rightarrow> nat \<Rightarrow> py_exception + passage list"
  elapsed :: "nat \<Rightarrow> rat"
  py_repr :: "string \<Rightarrow> string"
  generate_name :: string

text \<open>\<open>str(v)\<close> (flag False) and \<open>repr(v)\<close> (flag True, used for list elements).\<close>

fun py_fmt :: "(string \<Rightarrow> string) \<Rightarrow> bool \<Rightarrow> pyval \<Rightarrow> string" where
  "py_fmt r q VNone = ''None''"
| "py_fmt r q (VBool b) = (if b then ''True'' else ''False'')"
| "py_fmt r q (VInt i) = str_int i"
| "py_fmt r q (VFloat f) = f"
| "py_fmt r q (VStr s) = (if q then r s else s)"
| "py_fmt r q (VList xs) = ''['' @ join '', '' (map (py_fmt r True) xs) @ '']''"

definition py_str :: "env \<Rightarrow> pyval \<Rightarrow> string" where
  "py_str e v = py_fmt (py_repr e) False v"

section \<open>Generation client (ollama\_client.py, generate)\<close>

text \<open>\<open>kwargs.get(key, default)\<close>; the keyword dictionary is an association list.\<close>

definition kw_get :: "kwargs \<Rightarrow> string \<Rightarrow> pyval \<Rightarrow> pyval" where
  "kw_get kwargs key dflt = (case map_of kwargs key of None \<Rightarrow> dflt | Some v \<Rightarrow> v)"

text \<open>The dictionary literal that starts the payload.\<close>

definition base_payload :: "string \<Rightarrow> string \<Rightarrow> string \<Rightarrow> kwargs \<Rightarrow> payload" where
  "base_payload prompt system_prompt model kwargs =
     [''model'' \<mapsto> VStr model,
      ''prompt'' \<mapsto> VStr (system_prompt @ nl @ prompt),
      ''stream'' \<mapsto> VBool False,
      ''num_predict'' \<mapsto> kw_get kwargs ''num_predict'' (kw_get kwargs ''max_tokens'' (VInt 512)),
      ''top_k'' \<mapsto> kw_get kwargs ''top_k'' (VInt 40),
      ''top_p'' \<mapsto> kw_get kwargs ''top_p'' (VFloat ''0.9''),
      ''temperature'' \<mapsto> kw_get kwargs ''temperature'' (VFloat ''0.7''),
      ''repeat_penalty'' \<mapsto> kw_get kwargs ''repeat_penalty'' (VFloat ''1.1''),
      ''num_ctx'' \<mapsto> kw_get kwargs ''num_ctx'' (VInt 2048),
      ''stop'' \<mapsto> kw_get kwargs ''stop'' (VList [VStr (nl @ nl @ nl)])]"

text \<open>The loop \<open>for key, value in kwargs.items()\<close> that overrides payload entries.\<close>

fun override :: "payload \<Rightarrow> kwargs \<Rightarrow> payload" where
  "override payload [] = payload"
| "override payload ((key, val) # rest) =
     override (if val \<noteq> VNone \<and> key \<notin> set [''max_tokens''] then payload(key \<mapsto> val)
               else payload) rest"

definition build_payload :: "string \<Rightarrow> string \<Rightarrow> string \<Rightarrow> kwargs \<Rightarrow> payload" where
  "build_payload prompt system_prompt model kwargs =
     override (base_payload prompt system_prompt model kwargs) kwargs"

text \<open>
  \<open>isinstance(e, requests.exceptions.Timeout)\<close> and
  \<open>isinstance(e, requests.exceptions.ConnectionError)\<close>: \<open>ConnectTimeout\<close> is both.
\<close>

definition is_timeout :: "exc_type \<Rightarrow> bool" where
  "is_timeout t = (t = ReadTimeout \<or> t = ConnectTimeout)"

definition is_connection_error :: "exc_type \<Rightarrow> bool" where
  "is_connection_error t = (t = ConnectionError \<or> t = ConnectTimeout)"

text \<open>The three \<open>except\<close> clauses of generate, in their order; each raises \<open>Exception(error_msg)\<close>.\<close>

definition generate_except :: "env \<Rightarrow> pyval \<Rightarrow> string \<Rightarrow> exc_type \<Rightarrow> string \<Rightarrow> py_exception" where
  "generate_except e timeout model t msg =
     (if is_timeout t then
        PyExc Exception (''Ollama request timed out after '' @ py_str e timeout
                         @ '' seconds. Model: '' @ model)
      else if is_connection_error t then
        PyExc Exception (''Could not connect to Ollama server at '' @ ollama_url e)
      else
        PyExc Exception (''Ollama request failed: '' @ msg))"

text \<open>\<open>resp.raise_for_status()\<close>: the text of the \<open>HTTPError\<close> for a 4xx or 5xx status.\<close>

definition raise_for_status :: "nat \<Rightarrow> string \<Rightarrow> string \<Rightarrow> string option" where
  "raise_for_status status reason url =
     (if 400 \<le> status \<and> status < 500 then
        Some (str_nat status @ '' Client Error: '' @ reason @ '' for url: '' @ url)
      else if 500 \<le> status \<and> status < 600 then
        Some (str_nat status @ '' Server Error: '' @ reason @ '' for url: '' @ url)
      else None)"

definition generate :: "env \<Rightarrow> call_site \<Rightarrow> string \<Rightarrow> string \<Rightarrow> string \<Rightarrow> kwargs
                          \<Rightarrow> py_exception + string" where
  "generate e site prompt system_prompt model kwargs =
     (let payload = build_payload prompt system_prompt model kwargs;
          timeout = kw_get kwargs ''timeout'' (VInt 120);
          url = ollama_url e @ ''/api/generate''
      in case http_post e site url payload timeout of
           Raised t msg \<Rightarrow> Inl (generate_except e timeout model t msg)
         | Response status reason body \<Rightarrow>
             (case raise_for_status status reason url of
                Some msg \<Rightarrow> Inl (generate_except e timeout model HTTPError msg)
              | None \<Rightarrow>
                  (case body of
                     BadBody t msg \<Rightarrow> Inl (generate_except e timeout model t msg)
                   | JsonObject response_data \<Rightarrow>
                       (case map_of response_data ''response'' of
                          None \<Rightarrow> Inl (generate_except e timeout model KeyError
                                          (py_repr e ''response''))
                        | Some result \<Rightarrow> Inr result))))"

text \<open>The generation options that have a default, and their defaults.\<close>

definition generation_options :: "string list" where
  "generation_options =
     [''num_predict'', ''top_k'', ''top_p'', ''temperature'', ''repeat_penalty'', ''num_ctx'', ''stop'']"

definition default_options :: "(string \<times> pyval) list" where
  "default_options =
     [(''num_predict'', VInt 512), (''top_k'', VInt 40), (''top_p'', VFloat ''0.9''),
      (''temperature'', VFloat ''0.7''), (''repeat_penalty'', VFloat ''1.1''),
      (''num_ctx'', VInt 2048), (''stop'', VList [VStr (nl @ nl @ nl)])]"

section \<open>Configuration store (config\_loader.py)\<close>

text \<open>
  The loaded YAML document, as far as the pipeline reads it. An absent key is \<open>None\<close>:
  the "agents" and "pipeline" sections, "steps" inside the pipeline section, and the
  fields of an agent and of a step. A key that is present holds a value of its usual
  kind; a key written with a null value is not represented.
\<close>

record agent_cfg =
  a_name :: "string option"
  a_description :: "string option"
  a_system_prompt :: "string option"
  a_parameters :: "kwargs option"

record step_cfg =
  s_name :: "string option"
  s_agent :: "string option"
  s_estimated_time :: "pyval option"
  s_description :: "pyval option"

record config =
  c_agents :: "(string \<times> agent_cfg) list option"
  c_pipeline :: "step_cfg list option option"

text \<open>\<open>str(e)\<close>; for a \<open>KeyError\<close> the text is the \<open>repr\<close> of the key.\<close>

fun exc_str :: "py_exception \<Rightarrow> string" where
  "exc_str (PyExc t msg) = msg"
| "exc_str (UnboundLocalError v) =
     ''cannot access local variable '' @ squote @ v @ squote
       @ '' where it is not associated with a value''"

definition key_error :: "env \<Rightarrow> string \<Rightarrow> py_exception" where
  "key_error e key = PyExc KeyError (py_repr e key)"

definition get_agent_config :: "env \<Rightarrow> config \<Rightarrow> string \<Rightarrow> py_exception + agent_cfg" where
  "get_agent_config e cfg agent_name =
     (case c_agents cfg of
        None \<Rightarrow> Inl (key_error e ''No agents section found in configuration'')
      | Some agents \<Rightarrow>
          (case map_of agents agent_name of
             None \<Rightarrow> Inl (key_error e (''Agent '' @ squote @ agent_name @ squote
                                       @ '' not found in configuration''))
           | Some a \<Rightarrow> Inr a))"

definition get_agent_prompt :: "env \<Rightarrow> config \<Rightarrow> string \<Rightarrow> py_exception + string" where
  "get_agent_prompt e cfg agent_name =
     (case get_agent_config e cfg agent_name of
        Inl x \<Rightarrow> Inl x
      | Inr a \<Rightarrow> Inr (case a_system_prompt a of None \<Rightarrow> [] | Some p \<Rightarrow> p))"

definition get_agent_parameters :: "env \<Rightarrow> config \<Rightarrow> string \<Rightarrow> py_exception + kwargs" where
  "get_agent_parameters e cfg agent_name =
     (case get_agent_config e cfg agent_name of
        Inl x \<Rightarrow> Inl x
      | Inr a \<Rightarrow> Inr (case a_parameters a of None \<Rightarrow> [] | Some ps \<Rightarrow> ps))"

definition get_pipeline_steps :: "env \<Rightarrow> config \<Rightarrow> py_exception + step_cfg list" where
  "get_pipeline_steps e cfg =
     (case c_pipeline cfg of
        None \<Rightarrow> Inl (key_error e ''No pipeline section found in configuration'')
      | Some section \<Rightarrow> Inr (case section of None \<Rightarrow> [] | Some steps \<Rightarrow> steps))"

section \<open>Agents (agents/*.py)\<close>

datatype agent_cls = DecomposerAgent | CritiqueAgent | SynthesisAgent | ReportFormatterAgent

definition AGENT_MAP :: "(string \<times> agent_cls) list" where
  "AGENT_MAP =
     [(''decomposer'', DecomposerAgent), (''critique'', CritiqueAgent),
      (''synthesis'', SynthesisAgent), (''report_formatter'', ReportFormatterAgent)]"

text \<open>The configuration name each class's \<open>run\<close> looks its prompt and parameters up under.\<close>

fun agent_id :: "agent_cls \<Rightarrow> string" where
  "agent_id DecomposerAgent = ''decomposer''"
| "agent_id CritiqueAgent = ''critique''"
| "agent_id SynthesisAgent = ''synthesis''"
| "agent_id ReportFormatterAgent = ''report_formatter''"

text \<open>
  The call \<open>generate(prompt, system_prompt=system_prompt, model=model, **parameters)\<close>:
  a parameter named like one of the named arguments makes the call itself raise.
\<close>

definition call_generate :: "env \<Rightarrow> call_site \<Rightarrow> string \<Rightarrow> string \<Rightarrow> string \<Rightarrow> kwargs
                               \<Rightarrow> py_exception + string" where
  "call_generate e site prompt system_prompt model parameters =
     (case filter (\<lambda>k. k = ''system_prompt'' \<or> k = ''model'') (map fst parameters) of
        k # ks \<Rightarrow>
          Inl (PyExc TypeError (generate_name e
                 @ ''() got multiple values for keyword argument '' @ squote @ k @ squote))
      | [] \<Rightarrow>
          if ''prompt'' \<in> set (map fst parameters) then
            Inl (PyExc TypeError (''generate() got multiple values for argument ''
                                   @ squote @ ''prompt'' @ squote))
          else generate e site prompt system_prompt model parameters)"

definition agent_run :: "env \<Rightarrow> config \<Rightarrow> call_site \<Rightarrow> agent_cls \<Rightarrow> string \<Rightarrow> string
                           \<Rightarrow> py_exception + string" where
  "agent_run e cfg site cls prompt model =
     (case get_agent_prompt e cfg (agent_id cls) of
        Inl x \<Rightarrow> Inl x
      | Inr system_prompt \<Rightarrow>
          (case get_agent_parameters e cfg (agent_id cls) of
             Inl x \<Rightarrow> Inl x
           | Inr parameters \<Rightarrow> call_generate e site prompt system_prompt model parameters))"

section \<open>Pipeline orchestrator (rag.py, run\_pipeline)\<close>

type_synonym pipeline_context = "string \<rightharpoonup> string"

text \<open>\<open>ctx.get(key, default)\<close>.\<close>

definition ctx_get :: "pipeline_context \<Rightarrow> string \<Rightarrow> string \<Rightarrow> string" where
  "ctx_get ctx key dflt = (case ctx key of None \<Rightarrow> dflt | Some v \<Rightarrow> v)"

text \<open>The \<open>if\<close>/\<open>elif\<close> chain on the agent name: the prompt, and the output key.\<close>

definition render_prompt :: "string \<Rightarrow> string \<Rightarrow> string \<Rightarrow> string \<Rightarrow> string \<Rightarrow> string
                               \<Rightarrow> pipeline_context \<Rightarrow> string" where
  "render_prompt agent_name step_name description query context sources_md ctx =
     (if agent_name = ''decomposer'' then
        ''## '' @ step_name @ nl @ nl @ description @ nl @ nl @ ''### User Query'' @ nl @ query
          @ nl @ nl @ ''### Context'' @ nl @ context @ nl @ nl
          @ ''Please break down this research question into structured components.''
      else if agent_name = ''critique'' then
        ''## '' @ step_name @ nl @ nl @ description @ nl @ nl @ ''### Breakdown'' @ nl
          @ ctx_get ctx ''breakdown'' ''N/A''
          @ nl @ nl @ ''### Context'' @ nl @ context @ nl @ nl
          @ ''Please review and improve this research framework.''
      else if agent_name = ''synthesis'' then
        ''## '' @ step_name @ nl @ nl @ description @ nl @ nl @ ''### Breakdown'' @ nl
          @ ctx_get ctx ''breakdown'' ''N/A''
          @ nl @ nl @ ''### Critique'' @ nl @ ctx_get ctx ''critique'' ''N/A''
          @ nl @ nl @ ''### Context'' @ nl @ context @ nl @ nl
          @ ''Please synthesize this information into a comprehensive analysis.''
      else if agent_name = ''report_formatter'' then
        ''## '' @ step_name @ nl @ nl @ description @ nl @ nl @ ''**Topic:** '' @ query
          @ nl @ nl @ ''**Breakdown:** '' @ ctx_get ctx ''breakdown'' ''N/A''
          @ nl @ nl @ ''**Critique:** '' @ ctx_get ctx ''critique'' ''N/A''
          @ nl @ nl @ ''**Synthesis:** '' @ ctx_get ctx ''synthesis'' ''N/A''
          @ nl @ nl @ ''**Sources:** '' @ sources_md @ nl @ nl
          @ ''Please create a comprehensive, professional report.''
      else
        ''## '' @ step_name @ nl @ nl @ description @ nl @ nl
          @ ''Please process the following information:'' @ nl @ context)"

definition output_key :: "string \<Rightarrow> string" where
  "output_key agent_name =
     (if agent_name = ''decomposer'' then ''breakdown''
      else if agent_name = ''critique'' then ''critique''
      else if agent_name = ''synthesis'' then ''synthesis''
      else if agent_name = ''report_formatter'' then ''final_report''
      else agent_name @ ''_output'')"

text \<open>
  Every branch of the chain reads \<open>agent_config['description']\<close>, which raises
  \<open>KeyError\<close> when the agent has no description.
\<close>

definition step_prompt :: "env \<Rightarrow> agent_cfg \<Rightarrow> string \<Rightarrow> string \<Rightarrow> string \<Rightarrow> string \<Rightarrow> string
                             \<Rightarrow> pipeline_context \<Rightarrow> py_exception + string" where
  "step_prompt e agent_config agent_name step_name query context sources_md ctx =
     (case a_description agent_config of
        None \<Rightarrow> Inl (key_error e ''description'')
      | Some description \<Rightarrow>
          Inr (render_prompt agent_name step_name description query context sources_md ctx))"

text \<open>An entry of the step log. The execution time is exact here, a float in the code.\<close>

record step_result =
  r_name :: string
  r_output :: string
  r_markdown :: bool
  r_step_number :: nat
  r_agent_name :: string
  r_estimated_time :: pyval
  r_description :: pyval
  r_execution_time :: rat

text \<open>
  The body of the loop for step \<open>i\<close> (counted from 0): either the exception it raises,
  or the updated context and the entry appended to the log.
\<close>

definition run_step :: "env \<Rightarrow> config \<Rightarrow> string \<Rightarrow> string \<Rightarrow> string \<Rightarrow> string
                          \<Rightarrow> pipeline_context \<Rightarrow> nat \<Rightarrow> step_cfg
                          \<Rightarrow> py_exception + (pipeline_context \<times> step_result)" where
  "run_step e cfg query model context sources_md ctx i step =
     (case s_name step of
        None \<Rightarrow> Inl (key_error e ''name'')
      | Some step_name \<Rightarrow>
     (case s_agent step of
        None \<Rightarrow> Inl (key_error e ''agent'')
      | Some agent_name \<Rightarrow>
     (case map_of AGENT_MAP agent_name of
        None \<Rightarrow> Inl (key_error e agent_name)
      | Some agent_cls \<Rightarrow>
     (case get_agent_config e cfg agent_name of
        Inl x \<Rightarrow> Inl x
      | Inr agent_config \<Rightarrow>
     (case step_prompt e agent_config agent_name step_name query context sources_md ctx of
        Inl x \<Rightarrow> Inl x
      | Inr prompt \<Rightarrow>
     (case agent_run e cfg (StepCall i) agent_cls prompt model of
        Inl x \<Rightarrow> Inl x
      | Inr output \<Rightarrow>
          Inr (ctx(output_key agent_name \<mapsto> output),
               \<lparr>r_name = step_name,
                r_output = output,
                r_markdown = True,
                r_step_number = i + 1,
                r_agent_name = agent_name,
                r_estimated_time = (case s_estimated_time step of None \<Rightarrow> VInt 2 | Some t \<Rightarrow> t),
                r_description = (case s_description step of None \<Rightarrow> VStr [] | Some d \<Rightarrow> d),
                r_execution_time = elapsed e i\<rparr>)))))))"

text \<open>
  The loop \<open>for i, step in enumerate(pipeline_steps)\<close>. It stops at the first step that
  raises and gives the context and the log as they are then, with the exception.
\<close>

fun run_steps :: "env \<Rightarrow> config \<Rightarrow> string \<Rightarrow> string \<Rightarrow> string \<Rightarrow> string
                    \<Rightarrow> nat \<Rightarrow> pipeline_context \<Rightarrow> step_result list \<Rightarrow> step_cfg list
                    \<Rightarrow> pipeline_context \<times> step_result list \<times> py_exception option" where
  "run_steps e cfg query model context sources_md i ctx steps [] = (ctx, steps, None)"
| "run_steps e cfg query model context sources_md i ctx steps (step # rest) =
     (case run_step e cfg query model context sources_md ctx i step of
        Inl x \<Rightarrow> (ctx, steps, Some x)
      | Inr (ctx', entry) \<Rightarrow>
          run_steps e cfg query model context sources_md (Suc i) ctx' (steps @ [entry]) rest)"

text \<open>The result dictionary; a key that a return statement leaves out is \<open>None\<close>.\<close>

record execution_summary =
  total_time :: rat
  steps_completed :: nat
  model_used :: string

record pipeline_result =
  res_answer :: string
  res_sources :: "string option list"
  res_debug_steps :: "step_result list"
  res_pipeline_complete :: bool
  res_total_steps :: nat
  res_partial_success :: "bool option"
  res_error :: "string option"
  res_execution_summary :: "execution_summary option"

text \<open>
  The local variables the \<open>except\<close> block reads, each \<open>None\<close> until its assignment
  has run.
\<close>

record locals =
  l_context :: "string option"
  l_sources :: "string option list option"
  l_steps :: "step_result list option"

definition seed_context :: "string \<Rightarrow> string \<Rightarrow> string \<Rightarrow> pipeline_context" where
  "seed_context query context sources_md =
     [''query'' \<mapsto> query, ''context'' \<mapsto> context, ''sources_md'' \<mapsto> sources_md]"

text \<open>
  \<open>step_names = [step["name"] for step in pipeline_steps]\<close>, which runs after
  \<open>steps = []\<close> and before the loop.
\<close>

fun step_names :: "env \<Rightarrow> step_cfg list \<Rightarrow> py_exception + string list" where
  "step_names e [] = Inr []"
| "step_names e (step # rest) =
     (case s_name step of
        None \<Rightarrow> Inl (key_error e ''name'')
      | Some n \<Rightarrow> (case step_names e rest of Inl x \<Rightarrow> Inl x | Inr ns \<Rightarrow> Inr (n # ns)))"

text \<open>
  The \<open>try\<close> block: the success dictionary, or the exception with the local variables
  bound when it was raised.
\<close>

definition try_body :: "env \<Rightarrow> config \<Rightarrow> string \<Rightarrow> string
                          \<Rightarrow> (locals \<times> py_exception) + pipeline_result" where
  "try_body e cfg query model =
     (case get_pipeline_steps e cfg of
        Inl x \<Rightarrow> Inl (\<lparr>l_context = None, l_sources = None, l_steps = None\<rparr>, x)
      | Inr pipeline_steps \<Rightarrow>
     (case retrieve e query 8 of
        Inl x \<Rightarrow> Inl (\<lparr>l_context = None, l_sources = None, l_steps = None\<rparr>, x)
      | Inr passages \<Rightarrow>
          (let context = join nl (map p_text passages);
               sources = passage_sources passages;
               sources_md = sources_to_markdown sources;
               ctx = seed_context query context sources_md
           in case step_names e pipeline_steps of
                Inl x \<Rightarrow>
                  Inl (\<lparr>l_context = Some context, l_sources = Some sources,
                        l_steps = Some []\<rparr>, x)
              | Inr names \<Rightarrow>
                (case run_steps e cfg query model context sources_md 0 ctx [] pipeline_steps of
                   (ctx', steps, Some x) \<Rightarrow>
                     Inl (\<lparr>l_context = Some context, l_sources = Some sources,
                           l_steps = Some steps\<rparr>, x)
                 | (ctx', steps, None) \<Rightarrow>
                     Inr \<lparr>res_answer = ctx_get ctx' ''final_report''
                                          ''Pipeline completed but no final report generated'',
                          res_sources = sources,
                          res_debug_steps = steps,
                          res_pipeline_complete = True,
                          res_total_steps = length steps,
                          res_partial_success = None,
                          res_error = None,
                          res_execution_summary =
                            Some \<lparr>total_time = sum_list (map r_execution_time steps),
                                  steps_completed = length steps,
                                  model_used = model\<rparr>\<rparr>))))"

text \<open>The markers that open the two failure answers, as UTF-8 bytes.\<close>

definition warning_sign :: string where
  "warning_sign = [CHR 0xE2, CHR 0x9A, CHR 0xA0, CHR 0xEF, CHR 0xB8, CHR 0x8F]"

definition cross_mark :: string where
  "cross_mark = [CHR 0xE2, CHR 0x9D, CHR 0x8C]"

definition error_msg :: "step_result list \<Rightarrow> py_exception \<Rightarrow> string" where
  "error_msg steps x =
     ''Pipeline failed at step '' @ str_nat (length steps + 1) @ '': '' @ exc_str x"

fun partial_context :: "string \<Rightarrow> step_result list \<Rightarrow> string" where
  "partial_context acc [] = acc"
| "partial_context acc (step # rest) =
     partial_context (acc @ nl @ r_name step @ '':'' @ nl @ r_output step @ nl) rest"

definition fallback_prompt :: "string \<Rightarrow> string \<Rightarrow> step_result list \<Rightarrow> string" where
  "fallback_prompt query context steps =
     ''Based on the following completed research steps, provide a summary of what was accomplished:''
       @ nl @ nl
       @ partial_context (''Query: '' @ query @ nl @ nl @ ''Context: '' @ context @ nl @ nl) steps"

definition fallback_system_prompt :: string where
  "fallback_system_prompt =
     ''You are a research assistant. Provide a clear summary of the completed research steps.''"

text \<open>The last return statement; it reads \<open>sources\<close>.\<close>

definition total_failure :: "locals \<Rightarrow> string \<Rightarrow> py_exception + pipeline_result" where
  "total_failure vars msg =
     (case l_sources vars of
        None \<Rightarrow> Inl (UnboundLocalError ''sources'')
      | Some sources \<Rightarrow>
          Inr \<lparr>res_answer = cross_mark @ '' Pipeline failed completely: '' @ msg,
               res_sources = sources,
               res_debug_steps = [],
               res_pipeline_complete = False,
               res_total_steps = 0,
               res_partial_success = Some False,
               res_error = Some msg,
               res_execution_summary = None\<rparr>)"

text \<open>
  The \<open>except Exception as e\<close> block. Its inner \<open>try\<close> swallows whatever the fallback
  attempt raises, an unbound \<open>context\<close> or \<open>sources\<close> included.
\<close>

definition except_block :: "env \<Rightarrow> string \<Rightarrow> string \<Rightarrow> locals \<Rightarrow> py_exception
                              \<Rightarrow> py_exception + pipeline_result" where
  "except_block e query model vars x =
     (case l_steps vars of
        None \<Rightarrow> Inl (UnboundLocalError ''steps'')
      | Some steps \<Rightarrow>
          (let msg = error_msg steps x in
           if steps \<noteq> [] then
             (case l_context vars of
                None \<Rightarrow> total_failure vars msg
              | Some context \<Rightarrow>
                  (case generate e FallbackCall (fallback_prompt query context steps)
                          fallback_system_prompt model [] of
                     Inl y \<Rightarrow> total_failure vars msg
                   | Inr fallback_response \<Rightarrow>
                       (case l_sources vars of
                          None \<Rightarrow> total_failure vars msg
                        | Some sources \<Rightarrow>
                            Inr \<lparr>res_answer =
                                   warning_sign @ '' Pipeline partially completed. Here''
                                     @ squote @ ''s what was accomplished:'' @ nl @ nl
                                     @ fallback_response,
                                 res_sources = sources,
                                 res_debug_steps = steps,
                                 res_pipeline_complete = False,
                                 res_total_steps = length steps,
                                 res_partial_success = Some True,
                                 res_error = Some msg,
                                 res_execution_summary = None\<rparr>)))
           else total_failure vars msg))"

definition run_pipeline :: "env \<Rightarrow> config \<Rightarrow> string \<Rightarrow> string \<Rightarrow> py_exception + pipeline_result" where
  "run_pipeline e cfg query model =
     (case try_body e cfg query model of
        Inr result \<Rightarrow> Inr result
      | Inl (vars, x) \<Rightarrow> except_block e query model vars x)"

text \<open>The key a step writes into the context: the output key of its agent's branch.\<close>

definition step_output_key :: "step_cfg \<Rightarrow> string option" where
  "step_output_key step = map_option output_key (s_agent step)"

section \<open>Concrete collaborators for the examples\<close>

text \<open>
  A deployment with the default \<open>OLLAMA_URL\<close>, an empty index, and a \<open>repr\<close> that
  puts a string between single quotes (what Python does for the plain names used in
  the examples); the model server is the argument.
\<close>

definition local_env :: "(call_site \<Rightarrow> string \<Rightarrow> payload \<Rightarrow> pyval \<Rightarrow> http_result) \<Rightarrow> env" where
  "local_env server =
     \<lparr>http_post = server,
      ollama_url = ''http://localhost:11434'',
      retrieve = (\<lambda>query k. Inr []),
      elapsed = (\<lambda>i. 1),
      py_repr = (\<lambda>s. squote @ s @ squote),
      generate_name = ''app.ollama_client.generate''\<rparr>"

definition read_timeout_server :: "call_site \<Rightarrow> string \<Rightarrow> payload \<Rightarrow> pyval \<Rightarrow> http_result" where
  "read_timeout_server site url json timeout = Raised ReadTimeout ''Read timed out.''"

definition unreachable_server :: "call_site \<Rightarrow> string \<Rightarrow> payload \<Rightarrow> pyval \<Rightarrow> http_result" where
  "unreachable_server site url json timeout = Raised ConnectionError ''Connection refused''"

definition failing_server :: "call_site \<Rightarrow> string \<Rightarrow> payload \<Rightarrow> pyval \<Rightarrow> http_result" where
  "failing_server site url json timeout =
     Response 500 ''Internal Server Error'' (BadBody JSONDecodeError ''Expecting value'')"

definition not_found_server :: "call_site \<Rightarrow> string \<Rightarrow> payload \<Rightarrow> pyval \<Rightarrow> http_result" where
  "not_found_server site url json timeout =
     Response 404 ''Not Found'' (JsonObject [(''error'', ''model not found'')])"

definition broken_transport_server :: "call_site \<Rightarrow> string \<Rightarrow> payload \<Rightarrow> pyval \<Rightarrow> http_result" where
  "broken_transport_server site url json timeout = Raised RequestException ''Invalid URL''"

definition not_json_server :: "call_site \<Rightarrow> string \<Rightarrow> payload \<Rightarrow> pyval \<Rightarrow> http_result" where
  "not_json_server site url json timeout =
     Response 200 ''OK'' (BadBody JSONDecodeError ''Expecting value'')"

definition no_response_key_server :: "call_site \<Rightarrow> string \<Rightarrow> payload \<Rightarrow> pyval \<Rightarrow> http_result" where
  "no_response_key_server site url json timeout =
     Response 200 ''OK'' (JsonObject [(''error'', ''model not found'')])"

text \<open>A server that answers every call, and two that fail at chosen calls.\<close>

definition answering_server :: "call_site \<Rightarrow> string \<Rightarrow> payload \<Rightarrow> pyval \<Rightarrow> http_result" where
  "answering_server site url json timeout =
     Response 200 ''OK'' (JsonObject [(''response'', ''reply'')])"

definition first_call_server :: "call_site \<Rightarrow> string \<Rightarrow> payload \<Rightarrow> pyval \<Rightarrow> http_result" where
  "first_call_server site url json timeout =
     (if site = StepCall 0 then Response 200 ''OK'' (JsonObject [(''response'', ''reply'')])
      else Raised ConnectionError ''Connection refused'')"

definition second_step_timeout_server :: "call_site \<Rightarrow> string \<Rightarrow> payload \<Rightarrow> pyval \<Rightarrow> http_result" where
  "second_step_timeout_server site url json timeout =
     (if site = StepCall 1 then Raised ReadTimeout ''Read timed out.''
      else Response 200 ''OK'' (JsonObject [(''response'', ''reply'')]))"

text \<open>A configuration with the four agents described, and the given steps.\<close>

definition demo_agent :: agent_cfg where
  "demo_agent =
     \<lparr>a_name = Some ''Agent'',
      a_description = Some ''Does its part.'',
      a_system_prompt = Some ''You are helpful.'',
      a_parameters = Some [(''temperature'', VFloat ''0.3''), (''max_tokens'', VInt 256)]\<rparr>"

definition demo_config :: "step_cfg list \<Rightarrow> config" where
  "demo_config steps =
     \<lparr>c_agents = Some [(''decomposer'', demo_agent), (''critique'', demo_agent),
                       (''synthesis'', demo_agent), (''report_formatter'', demo_agent)],
      c_pipeline = Some (Some steps)\<rparr>"

definition demo_step :: "string \<Rightarrow> string \<Rightarrow> step_cfg" where
  "demo_step step_name agent_name =
     \<lparr>s_name = Some step_name, s_agent = Some agent_name,
      s_estimated_time = None, s_description = None\<rparr>"

text \<open>A configuration file with agents and no "pipeline" section.\<close>

definition no_pipeline_config :: config where
  "no_pipeline_config = \<lparr>c_agents = Some [(''decomposer'', demo_agent)], c_pipeline = None\<rparr>"

text \<open>The type of the exception a call raised, if it raised.\<close>

fun raised_type :: "py_exception + 'a \<Rightarrow> exc_type option" where
  "raised_type (Inl (PyExc t msg)) = Some t"
| "raised_type (Inl (UnboundLocalError v)) = None"
| "raised_type (Inr y) = None"

section \<open>Properties of the source list\<close>

lemma length_md_sources: "length (md_sources i sources) = length sources"
  by (induction sources arbitrary: i) auto

lemma nth_md_sources:
  "j < length sources \<Longrightarrow> md_sources i sources ! j = md_line (i + j) (sources ! j)"
proof (induction sources arbitrary: i j)
  case Nil
  then show ?case by simp
next
  case (Cons s rest)
  show ?case
  proof (cases j)
    case 0
    then show ?thesis by simp
  next
    case (Suc j')
    with Cons.prems have "j' < length rest" by simp
    from Cons.IH [OF this, of "Suc i"] Suc show ?thesis by simp
  qed
qed

text \<open>
  C7. The empty list renders as "No sources available"; the list a.pdf, Unknown renders
  as the two numbered lines "1. **a.pdf**" and "2. Unknown source" joined by a newline.
\<close>

theorem sources_to_markdown_examples:
  "sources_to_markdown [] = ''No sources available'' \<and>
   sources_to_markdown [Some ''a.pdf'', Some ''Unknown'']
     = ''1. **a.pdf**'' @ [CHR 0x0A] @ ''2. Unknown source''"
  by (simp add: sources_to_markdown_def md_line_def nl_def str_nat.simps)

text \<open>
  C10. A passage whose metadata has no "source" key contributes the label None. In the
  rendering of a non-empty list, line j (counted from 1) is "j. Unknown source" when the
  label is None, the empty string or "Unknown", and "j. **label**" for every other label;
  the output is these lines joined by newlines.
\<close>

theorem unknown_sources_rendering:
  "(\<forall>j < length passages. map_of (p_metadata (passages ! j)) ''source'' = None \<longrightarrow>
       passage_sources passages ! j = None) \<and>
   (sources \<noteq> [] \<longrightarrow>
       sources_to_markdown sources = join nl (md_sources 1 sources)) \<and>
   length (md_sources 1 sources) = length sources \<and>
   (\<forall>j < length sources.
       md_sources 1 sources ! j =
         (if sources ! j = None \<or> sources ! j = Some [] \<or> sources ! j = Some ''Unknown''
          then str_nat (Suc j) @ ''. Unknown source''
          else str_nat (Suc j) @ ''. **'' @ the (sources ! j) @ ''**''))"
proof (intro conjI allI impI)
  fix j assume "j < length passages"
    and "map_of (p_metadata (passages ! j)) ''source'' = None"
  then show "passage_sources passages ! j = None"
    by (simp add: passage_sources_def)
next
  assume "sources \<noteq> []"
  then show "sources_to_markdown sources = join nl (md_sources 1 sources)"
    by (simp add: sources_to_markdown_def)
next
  show "length (md_sources 1 sources) = length sources"
    by (rule length_md_sources)
next
  fix j assume j: "j < length sources"
  show "md_sources 1 sources ! j =
         (if sources ! j = None \<or> sources ! j = Some [] \<or> sources ! j = Some ''Unknown''
          then str_nat (Suc j) @ ''. Unknown source''
          else str_nat (Suc j) @ ''. **'' @ the (sources ! j) @ ''**'')"
    using nth_md_sources [OF j, of 1]
    by (cases "sources ! j") (auto simp: md_line_def)
qed

theorem unknown_sources_rendering_witness:
  "passage_sources [\<lparr>p_text = ''t'', p_metadata = []\<rparr>] ! 0 = None \<and>
   sources_to_markdown [None, Some [], Some ''b.txt'']
     = ''1. Unknown source'' @ [CHR 0x0A] @ ''2. Unknown source'' @ [CHR 0x0A] @ ''3. **b.txt**''"
proof -
  let ?ps = "[\<lparr>p_text = ''t'', p_metadata = []\<rparr>]"
  let ?ss = "[None, Some [], Some ''b.txt'']"
  note inst = unknown_sources_rendering [of ?ps ?ss]
  from inst have a: "passage_sources ?ps ! 0 = None" by simp
  from inst have b: "sources_to_markdown ?ss = join nl (md_sources 1 ?ss)" by simp
  from inst have l: "length (md_sources 1 ?ss) = 3" by simp
  from inst have n: "\<forall>j<3. md_sources 1 ?ss ! j =
         (if ?ss ! j = None \<or> ?ss ! j = Some [] \<or> ?ss ! j = Some ''Unknown''
          then str_nat (Suc j) @ ''. Unknown source''
          else str_nat (Suc j) @ ''. **'' @ the (?ss ! j) @ ''**'')" by simp
  have n0: "md_sources 1 ?ss ! 0 = ''1. Unknown source''"
    using n [rule_format, of 0] by (simp add: str_nat.simps)
  have n1: "md_sources 1 ?ss ! 1 = ''2. Unknown source''"
    using n [rule_format, of 1] by (simp add: str_nat.simps)
  have n2: "md_sources 1 ?ss ! 2 = ''3. **b.txt**''"
    using n [rule_format, of 2] by (simp add: str_nat.simps)
  have "md_sources 1 ?ss = [md_sources 1 ?ss ! 0, md_sources 1 ?ss ! 1, md_sources 1 ?ss ! 2]"
    using l by (intro nth_equalityI) (auto simp: less_Suc_eq numeral_3_eq_3)
  with n0 n1 n2 have "md_sources 1 ?ss = [''1. Unknown source'', ''2. Unknown source'', ''3. **b.txt**'']"
    by simp
  with a b show ?thesis by (simp add: nl_def)
qed

section \<open>Properties of the generation client\<close>

lemma override_lookup:
  "distinct (map fst kwargs) \<Longrightarrow>
   override payload kwargs k =
     (case map_of kwargs k of
        None \<Rightarrow> payload k
      | Some v \<Rightarrow> if v \<noteq> VNone \<and> k \<noteq> ''max_tokens'' then Some v else payload k)"
proof (induction kwargs arbitrary: payload)
  case Nil
  then show ?case by simp
next
  case (Cons kv rest)
  obtain key val where kv: "kv = (key, val)" by (cases kv)
  from Cons.prems kv have d: "distinct (map fst rest)" and fresh: "key \<notin> fst ` set rest"
    by auto
  from fresh have none: "map_of rest key = None"
    by (simp add: map_of_eq_None_iff)
  show ?case
    unfolding kv using Cons.IH [OF d] none
    by (auto split: option.splits)
qed

lemma base_payload_option:
  "k \<in> set generation_options \<Longrightarrow>
   base_payload prompt system_prompt model kwargs k =
     Some (kw_get kwargs k
            (if k = ''num_predict'' then kw_get kwargs ''max_tokens'' (VInt 512)
             else the (map_of default_options k)))"
  by (auto simp: generation_options_def base_payload_def default_options_def)

text \<open>
  C8. For every generation option with a default (prediction-length cap, top-k, nucleus
  threshold, temperature, repeat penalty, context window, stop sequences), the payload
  entry is the caller's value when the caller supplies that name, and the default
  otherwise, where the default of the prediction-length cap is the caller's max\_tokens
  when given and 512 when not. Every other name the caller supplies with a value other
  than None, max\_tokens apart, is in the payload with the caller's value.
\<close>

theorem payload_caller_wins:
  assumes "distinct (map fst kwargs)"
  shows "(\<forall>k \<in> set generation_options.
            build_payload prompt system_prompt model kwargs k =
              (case map_of kwargs k of
                 Some v \<Rightarrow> Some v
               | None \<Rightarrow>
                   if k = ''num_predict'' \<and> map_of kwargs ''max_tokens'' \<noteq> None
                   then map_of kwargs ''max_tokens''
                   else map_of default_options k)) \<and>
         (\<forall>k v. map_of kwargs k = Some v \<and> v \<noteq> VNone \<and> k \<noteq> ''max_tokens'' \<longrightarrow>
            build_payload prompt system_prompt model kwargs k = Some v)"
proof (intro conjI ballI allI impI)
  fix k assume k: "k \<in> set generation_options"
  then have nm: "k \<noteq> ''max_tokens''"
    by (auto simp: generation_options_def)
  from k have dflt: "map_of default_options k = Some (the (map_of default_options k))"
    by (auto simp: generation_options_def default_options_def)
  have np: "map_of default_options ''num_predict'' = Some (VInt 512)"
    by (simp add: default_options_def)
  show "build_payload prompt system_prompt model kwargs k =
          (case map_of kwargs k of
             Some v \<Rightarrow> Some v
           | None \<Rightarrow>
               if k = ''num_predict'' \<and> map_of kwargs ''max_tokens'' \<noteq> None
               then map_of kwargs ''max_tokens''
               else map_of default_options k)"
  proof (cases "map_of kwargs k")
    case None
    have "build_payload prompt system_prompt model kwargs k =
            base_payload prompt system_prompt model kwargs k"
      using None by (simp add: build_payload_def override_lookup [OF assms])
    also have "\<dots> = Some (if k = ''num_predict'' then kw_get kwargs ''max_tokens'' (VInt 512)
                          else the (map_of default_options k))"
      using None by (simp add: base_payload_option [OF k] kw_get_def)
    also have "\<dots> = (if k = ''num_predict'' \<and> map_of kwargs ''max_tokens'' \<noteq> None
                      then map_of kwargs ''max_tokens'' else map_of default_options k)"
      using dflt np by (auto simp: kw_get_def split: option.splits)
    finally show ?thesis using None by simp
  next
    case (Some v)
    then show ?thesis
      by (simp add: build_payload_def override_lookup [OF assms] base_payload_option [OF k]
                    kw_get_def)
  qed
next
  fix k v
  assume "map_of kwargs k = Some v \<and> v \<noteq> VNone \<and> k \<noteq> ''max_tokens''"
  then show "build_payload prompt system_prompt model kwargs k = Some v"
    by (simp add: build_payload_def override_lookup [OF assms])
qed

theorem payload_caller_wins_witness:
  "build_payload ''p'' ''s'' ''m''
      [(''temperature'', VFloat ''0.2''), (''max_tokens'', VInt 100), (''seed'', VInt 7)]
      ''temperature'' = Some (VFloat ''0.2'') \<and>
   build_payload ''p'' ''s'' ''m''
      [(''temperature'', VFloat ''0.2''), (''max_tokens'', VInt 100), (''seed'', VInt 7)]
      ''num_predict'' = Some (VInt 100) \<and>
   build_payload ''p'' ''s'' ''m''
      [(''temperature'', VFloat ''0.2''), (''max_tokens'', VInt 100), (''seed'', VInt 7)]
      ''num_ctx'' = Some (VInt 2048) \<and>
   build_payload ''p'' ''s'' ''m''
      [(''temperature'', VFloat ''0.2''), (''max_tokens'', VInt 100), (''seed'', VInt 7)]
      ''seed'' = Some (VInt 7)"
proof -
  let ?kw = "[(''temperature'', VFloat ''0.2''), (''max_tokens'', VInt 100), (''seed'', VInt 7)]"
  have d: "distinct (map fst ?kw)" by simp
  note inst = payload_caller_wins [OF d, of "''p''" "''s''" "''m''"]
  note defaults = inst [THEN conjunct1, rule_format]
  note supplied = inst [THEN conjunct2, rule_format, of "''seed''" "VInt 7"]
  have "''temperature'' \<in> set generation_options" "''num_predict'' \<in> set generation_options"
       "''num_ctx'' \<in> set generation_options"
    by (simp_all add: generation_options_def)
  from this [THEN defaults] supplied show ?thesis
    by (simp add: default_options_def)
qed

lemma generate_except_type: "\<exists>msg. generate_except e timeout model t m = PyExc Exception msg"
  by (simp add: generate_except_def)

lemma generate_except_other:
  "\<not> is_timeout t \<Longrightarrow> \<not> is_connection_error t \<Longrightarrow>
   generate_except e timeout model t m = PyExc Exception (''Ollama request failed: '' @ m)"
  by (simp add: generate_except_def)

text \<open>
  C9, as the code has it. Every failure of generate is raised as the one type Exception,
  and the kind of failure shows in the message only. The except clause is chosen by the
  type of the exception raised in the try block, by the transport or while the body is
  read: "Ollama request timed out after <timeout> seconds. Model: <model>" for a
  timeout, "Could not connect to Ollama server at <url>" for a connection error that is
  not a timeout, and "Ollama request failed: <detail>" for every other exception, where
  the detail is the text of that exception. A 4xx or 5xx status is such an other
  exception, with the detail "<status> Client Error: <reason> for url: <url>" or
  "<status> Server Error: <reason> for url: <url>"; so is a reply whose JSON object has
  no "response" key, with the repr of that key as detail. Any other status with a JSON
  object holding "response" returns that text. The three texts are never equal.
\<close>

theorem generate_failures_one_type:
  "(generate e site prompt system_prompt model kwargs = Inl x \<longrightarrow>
      (\<exists>msg. x = PyExc Exception msg)) \<and>
   (http_post e site (ollama_url e @ ''/api/generate'')
        (build_payload prompt system_prompt model kwargs)
        (kw_get kwargs ''timeout'' (VInt 120)) = Raised t m \<and> is_timeout t \<longrightarrow>
      generate e site prompt system_prompt model kwargs =
        Inl (PyExc Exception (''Ollama request timed out after ''
               @ py_str e (kw_get kwargs ''timeout'' (VInt 120))
               @ '' seconds. Model: '' @ model))) \<and>
   (http_post e site (ollama_url e @ ''/api/generate'')
        (build_payload prompt system_prompt model kwargs)
        (kw_get kwargs ''timeout'' (VInt 120)) = Raised t m
      \<and> \<not> is_timeout t \<and> is_connection_error t \<longrightarrow>
      generate e site prompt system_prompt model kwargs =
        Inl (PyExc Exception (''Could not connect to Ollama server at '' @ ollama_url e))) \<and>
   (http_post e site (ollama_url e @ ''/api/generate'')
        (build_payload prompt system_prompt model kwargs)
        (kw_get kwargs ''timeout'' (VInt 120)) = Raised t m
      \<and> \<not> is_timeout t \<and> \<not> is_connection_error t \<longrightarrow>
      generate e site prompt system_prompt model kwargs =
        Inl (PyExc Exception (''Ollama request failed: '' @ m))) \<and>
   (http_post e site (ollama_url e @ ''/api/generate'')
        (build_payload prompt system_prompt model kwargs)
        (kw_get kwargs ''timeout'' (VInt 120)) = Response status reason body
      \<and> 400 \<le> status \<and> status < 500 \<longrightarrow>
      generate e site prompt system_prompt model kwargs =
        Inl (PyExc Exception (''Ollama request failed: '' @ str_nat status
               @ '' Client Error: '' @ reason @ '' for url: ''
               @ ollama_url e @ ''/api/generate''))) \<and>
   (http_post e site (ollama_url e @ ''/api/generate'')
        (build_payload prompt system_prompt model kwargs)
        (kw_get kwargs ''timeout'' (VInt 120)) = Response status reason body
      \<and> 500 \<le> status \<and> status < 600 \<longrightarrow>
      generate e site prompt system_prompt model kwargs =
        Inl (PyExc Exception (''Ollama request failed: '' @ str_nat status
               @ '' Server Error: '' @ reason @ '' for url: ''
               @ ollama_url e @ ''/api/generate''))) \<and>
   (http_post e site (ollama_url e @ ''/api/generate'')
        (build_payload prompt system_prompt model kwargs)
        (kw_get kwargs ''timeout'' (VInt 120)) = Response status reason (BadBody bt bm)
      \<and> \<not> (400 \<le> status \<and> status < 600) \<longrightarrow>
      generate e site prompt system_prompt model kwargs =
        Inl (PyExc Exception
              (if is_timeout bt then
                 ''Ollama request timed out after ''
                   @ py_str e (kw_get kwargs ''timeout'' (VInt 120))
                   @ '' seconds. Model: '' @ model
               else if is_connection_error bt then
                 ''Could not connect to Ollama server at '' @ ollama_url e
               else ''Ollama request failed: '' @ bm))) \<and>
   (http_post e site (ollama_url e @ ''/api/generate'')
        (build_payload prompt system_prompt model kwargs)
        (kw_get kwargs ''timeout'' (VInt 120)) = Response status reason (JsonObject response_data)
      \<and> \<not> (400 \<le> status \<and> status < 600)
      \<and> map_of response_data ''response'' = None \<longrightarrow>
      generate e site prompt system_prompt model kwargs =
        Inl (PyExc Exception (''Ollama request failed: '' @ py_repr e ''response''))) \<and>
   (http_post e site (ollama_url e @ ''/api/generate'')
        (build_payload prompt system_prompt model kwargs)
        (kw_get kwargs ''timeout'' (VInt 120)) = Response status reason (JsonObject response_data)
      \<and> \<not> (400 \<le> status \<and> status < 600)
      \<and> map_of response_data ''response'' = Some reply \<longrightarrow>
      generate e site prompt system_prompt model kwargs = Inr reply) \<and>
   ''Ollama request timed out after '' @ a \<noteq> ''Could not connect to Ollama server at '' @ b \<and>
   ''Ollama request timed out after '' @ a \<noteq> ''Ollama request failed: '' @ c \<and>
   ''Could not connect to Ollama server at '' @ b \<noteq> ''Ollama request failed: '' @ c"
proof -
  let ?post = "http_post e site (ollama_url e @ ''/api/generate'')
        (build_payload prompt system_prompt model kwargs)
        (kw_get kwargs ''timeout'' (VInt 120))"
  let ?gen = "generate e site prompt system_prompt model kwargs"
  have http: "\<not> is_timeout HTTPError" "\<not> is_connection_error HTTPError"
    and key: "\<not> is_timeout KeyError" "\<not> is_connection_error KeyError"
    by (simp_all add: is_timeout_def is_connection_error_def)
  have c1: "?gen = Inl x \<longrightarrow> (\<exists>msg. x = PyExc Exception msg)"
    using generate_except_type [of e "kw_get kwargs ''timeout'' (VInt 120)" model]
    by (auto simp: generate_def Let_def
             split: http_result.splits option.splits http_body.splits)
  have c2: "?post = Raised t m \<and> is_timeout t \<longrightarrow>
      ?gen = Inl (PyExc Exception (''Ollama request timed out after ''
               @ py_str e (kw_get kwargs ''timeout'' (VInt 120))
               @ '' seconds. Model: '' @ model))"
    by (simp add: generate_def Let_def generate_except_def)
  have c3: "?post = Raised t m \<and> \<not> is_timeout t \<and> is_connection_error t \<longrightarrow>
      ?gen = Inl (PyExc Exception (''Could not connect to Ollama server at '' @ ollama_url e))"
    by (simp add: generate_def Let_def generate_except_def)
  have c4: "?post = Raised t m \<and> \<not> is_timeout t \<and> \<not> is_connection_error t \<longrightarrow>
      ?gen = Inl (PyExc Exception (''Ollama request failed: '' @ m))"
    by (simp add: generate_def Let_def generate_except_def)
  have c5: "?post = Response status reason body \<and> 400 \<le> status \<and> status < 500 \<longrightarrow>
      ?gen = Inl (PyExc Exception (''Ollama request failed: '' @ str_nat status
               @ '' Client Error: '' @ reason @ '' for url: ''
               @ ollama_url e @ ''/api/generate''))"
    using http by (simp add: generate_def Let_def raise_for_status_def generate_except_other)
  have c6: "?post = Response status reason body \<and> 500 \<le> status \<and> status < 600 \<longrightarrow>
      ?gen = Inl (PyExc Exception (''Ollama request failed: '' @ str_nat status
               @ '' Server Error: '' @ reason @ '' for url: ''
               @ ollama_url e @ ''/api/generate''))"
    using http by (simp add: generate_def Let_def raise_for_status_def generate_except_other)
  have c7: "?post = Response status reason (BadBody bt bm)
      \<and> \<not> (400 \<le> status \<and> status < 600) \<longrightarrow>
      ?gen = Inl (PyExc Exception
              (if is_timeout bt then
                 ''Ollama request timed out after ''
                   @ py_str e (kw_get kwargs ''timeout'' (VInt 120))
                   @ '' seconds. Model: '' @ model
               else if is_connection_error bt then
                 ''Could not connect to Ollama server at '' @ ollama_url e
               else ''Ollama request failed: '' @ bm))"
    by (auto simp: generate_def Let_def raise_for_status_def generate_except_def)
  have c8: "?post = Response status reason (JsonObject response_data)
      \<and> \<not> (400 \<le> status \<and> status < 600)
      \<and> map_of response_data ''response'' = None \<longrightarrow>
      ?gen = Inl (PyExc Exception (''Ollama request failed: '' @ py_repr e ''response''))"
    using key by (auto simp: generate_def Let_def raise_for_status_def generate_except_other)
  have c9: "?post = Response status reason (JsonObject response_data)
      \<and> \<not> (400 \<le> status \<and> status < 600)
      \<and> map_of response_data ''response'' = Some reply \<longrightarrow>
      ?gen = Inr reply"
    by (auto simp: generate_def Let_def raise_for_status_def)
  have d: "''Ollama request timed out after '' @ a \<noteq> ''Could not connect to Ollama server at '' @ b"
    "''Ollama request timed out after '' @ a \<noteq> ''Ollama request failed: '' @ c"
    "''Could not connect to Ollama server at '' @ b \<noteq> ''Ollama request failed: '' @ c"
    by simp_all
  from c1 c2 c3 c4 c5 c6 c7 c8 c9 d show ?thesis by (intro conjI)
qed

theorem generate_failures_one_type_witness:
  "generate (local_env read_timeout_server) FallbackCall ''q'' ''s'' ''m'' []
     = Inl (PyExc Exception ''Ollama request timed out after 120 seconds. Model: m'') \<and>
   generate (local_env unreachable_server) FallbackCall ''q'' ''s'' ''m'' []
     = Inl (PyExc Exception ''Could not connect to Ollama server at http://localhost:11434'') \<and>
   generate (local_env broken_transport_server) FallbackCall ''q'' ''s'' ''m'' []
     = Inl (PyExc Exception ''Ollama request failed: Invalid URL'') \<and>
   generate (local_env not_found_server) FallbackCall ''q'' ''s'' ''m'' []
     = Inl (PyExc Exception (''Ollama request failed: 404 Client Error: Not Found for url: ''
                              @ ''http://localhost:11434/api/generate'')) \<and>
   generate (local_env failing_server) FallbackCall ''q'' ''s'' ''m'' []
     = Inl (PyExc Exception (''Ollama request failed: 500 Server Error: Internal Server Error''
                              @ '' for url: http://localhost:11434/api/generate'')) \<and>
   generate (local_env not_json_server) FallbackCall ''q'' ''s'' ''m'' []
     = Inl (PyExc Exception ''Ollama request failed: Expecting value'') \<and>
   generate (local_env no_response_key_server) FallbackCall ''q'' ''s'' ''m'' []
     = Inl (PyExc Exception (''Ollama request failed: '' @ squote @ ''response'' @ squote)) \<and>
   generate (local_env answering_server) FallbackCall ''q'' ''s'' ''m'' [] = Inr ''reply''"
proof -
  note pre = local_env_def kw_get_def is_timeout_def is_connection_error_def
  have w1: "generate (local_env read_timeout_server) FallbackCall ''q'' ''s'' ''m'' []
     = Inl (PyExc Exception ''Ollama request timed out after 120 seconds. Model: m'')"
    using generate_failures_one_type
            [of "local_env read_timeout_server" FallbackCall "''q''" "''s''" "''m''" "[]"
                _ ReadTimeout "''Read timed out.''", THEN conjunct2, THEN conjunct1]
    by (simp add: pre read_timeout_server_def py_str_def str_int_def str_nat.simps)
  have w2: "generate (local_env unreachable_server) FallbackCall ''q'' ''s'' ''m'' []
     = Inl (PyExc Exception ''Could not connect to Ollama server at http://localhost:11434'')"
    using generate_failures_one_type
            [of "local_env unreachable_server" FallbackCall "''q''" "''s''" "''m''" "[]"
                _ ConnectionError "''Connection refused''",
             THEN conjunct2, THEN conjunct2, THEN conjunct1]
    by (simp add: pre unreachable_server_def)
  have w3: "generate (local_env broken_transport_server) FallbackCall ''q'' ''s'' ''m'' []
     = Inl (PyExc Exception ''Ollama request failed: Invalid URL'')"
    using generate_failures_one_type
            [of "local_env broken_transport_server" FallbackCall "''q''" "''s''" "''m''" "[]"
                _ RequestException "''Invalid URL''",
             THEN conjunct2, THEN conjunct2, THEN conjunct2, THEN conjunct1]
    by (simp add: pre broken_transport_server_def)
  have w4: "generate (local_env not_found_server) FallbackCall ''q'' ''s'' ''m'' []
     = Inl (PyExc Exception (''Ollama request failed: 404 Client Error: Not Found for url: ''
                              @ ''http://localhost:11434/api/generate''))"
    using generate_failures_one_type
            [of "local_env not_found_server" FallbackCall "''q''" "''s''" "''m''" "[]"
                _ _ _ 404 "''Not Found''" "JsonObject [(''error'', ''model not found'')]",
             THEN conjunct2, THEN conjunct2, THEN conjunct2, THEN conjunct2, THEN conjunct1]
    by (simp add: pre not_found_server_def str_nat.simps)
  have w5: "generate (local_env failing_server) FallbackCall ''q'' ''s'' ''m'' []
     = Inl (PyExc Exception (''Ollama request failed: 500 Server Error: Internal Server Error''
                              @ '' for url: http://localhost:11434/api/generate''))"
    using generate_failures_one_type
            [of "local_env failing_server" FallbackCall "''q''" "''s''" "''m''" "[]"
                _ _ _ 500 "''Internal Server Error''" "BadBody JSONDecodeError ''Expecting value''",
             THEN conjunct2, THEN conjunct2, THEN conjunct2, THEN conjunct2, THEN conjunct2,
             THEN conjunct1]
    by (simp add: pre failing_server_def str_nat.simps)
  have w6: "generate (local_env not_json_server) FallbackCall ''q'' ''s'' ''m'' []
     = Inl (PyExc Exception ''Ollama request failed: Expecting value'')"
    using generate_failures_one_type
            [of "local_env not_json_server" FallbackCall "''q''" "''s''" "''m''" "[]"
                _ _ _ 200 "''OK''" _ JSONDecodeError "''Expecting value''",
             THEN conjunct2, THEN conjunct2, THEN conjunct2, THEN conjunct2, THEN conjunct2,
             THEN conjunct2, THEN conjunct1]
    by (simp add: pre not_json_server_def)
  have w7: "generate (local_env no_response_key_server) FallbackCall ''q'' ''s'' ''m'' []
     = Inl (PyExc Exception (''Ollama request failed: '' @ squote @ ''response'' @ squote))"
    using generate_failures_one_type
            [of "local_env no_response_key_server" FallbackCall "''q''" "''s''" "''m''" "[]"
                _ _ _ 200 "''OK''" _ _ _ "[(''error'', ''model not found'')]",
             THEN conjunct2, THEN conjunct2, THEN conjunct2, THEN conjunct2, THEN conjunct2,
             THEN conjunct2, THEN conjunct2, THEN conjunct1]
    by (simp add: pre no_response_key_server_def)
  have w8: "generate (local_env answering_server) FallbackCall ''q'' ''s'' ''m'' [] = Inr ''reply''"
    using generate_failures_one_type
            [of "local_env answering_server" FallbackCall "''q''" "''s''" "''m''" "[]"
                _ _ _ 200 "''OK''" _ _ _ "[(''response'', ''reply'')]" "''reply''",
             THEN conjunct2, THEN conjunct2, THEN conjunct2, THEN conjunct2, THEN conjunct2,
             THEN conjunct2, THEN conjunct2, THEN conjunct2, THEN conjunct1]
    by (simp add: pre answering_server_def)
  from w1 w2 w3 w4 w5 w6 w7 w8 show ?thesis by (intro conjI)
qed

text \<open>
  C9 as stated fails: a read timeout, a refused connection and a 500 response all
  surface as the same exception type, so the type does not tell them apart.
\<close>

theorem generate_typed_errors_counterexample:
  "raised_type (generate (local_env read_timeout_server) FallbackCall ''q'' ''s'' ''m'' [])
     = Some Exception \<and>
   raised_type (generate (local_env unreachable_server) FallbackCall ''q'' ''s'' ''m'' [])
     = Some Exception \<and>
   raised_type (generate (local_env failing_server) FallbackCall ''q'' ''s'' ''m'' [])
     = Some Exception"
  by (simp add: generate_def Let_def local_env_def read_timeout_server_def unreachable_server_def
                failing_server_def generate_except_def is_timeout_def is_connection_error_def
                raise_for_status_def kw_get_def)


section \<open>Properties of the orchestrator\<close>

lemma run_steps_log:
  "run_steps e cfg query model context sources_md i ctx steps ps = (ctx', steps', err) \<Longrightarrow>
   \<exists>new. steps' = steps @ new \<and>
         (case err of None \<Rightarrow> length new = length ps | Some x \<Rightarrow> length new < length ps)"
proof (induction ps arbitrary: i ctx steps)
  case Nil
  then show ?case by simp
next
  case (Cons step rest)
  show ?case
  proof (cases "run_step e cfg query model context sources_md ctx i step")
    case (Inl x)
    with Cons.prems show ?thesis by auto
  next
    case (Inr pr)
    obtain c entry where pr: "pr = (c, entry)" by (cases pr)
    from Cons.prems Inr pr
    have "run_steps e cfg query model context sources_md (Suc i) c (steps @ [entry]) rest
            = (ctx', steps', err)" by simp
    from Cons.IH [OF this] obtain new where
      new: "steps' = (steps @ [entry]) @ new"
           "case err of None \<Rightarrow> length new = length rest | Some x \<Rightarrow> length new < length rest"
      by blast
    from new have "steps' = steps @ (entry # new)" by simp
    moreover from new(2)
    have "case err of None \<Rightarrow> length (entry # new) = length (step # rest)
                    | Some x \<Rightarrow> length (entry # new) < length (step # rest)"
      by (cases err) simp_all
    ultimately show ?thesis by blast
  qed
qed

lemma run_steps_append:
  "run_steps e cfg query model context sources_md i ctx steps (xs @ ys) =
     (case run_steps e cfg query model context sources_md i ctx steps xs of
        (c, s, None) \<Rightarrow> run_steps e cfg query model context sources_md (i + length xs) c s ys
      | (c, s, Some x) \<Rightarrow> (c, s, Some x))"
proof (induction xs arbitrary: i ctx steps)
  case Nil
  then show ?case by simp
next
  case (Cons step rest)
  show ?case
  proof (cases "run_step e cfg query model context sources_md ctx i step")
    case (Inl x)
    then show ?thesis by simp
  next
    case (Inr pr)
    obtain c entry where pr: "pr = (c, entry)" by (cases pr)
    with Inr Cons.IH [of "Suc i" c "steps @ [entry]"] show ?thesis
      by (simp split: prod.splits option.splits)
  qed
qed

text \<open>
  When the steps before position \<open>k\<close> complete and the step at position \<open>k\<close> raises, the loop
  ends there with the log of those \<open>k\<close> steps.
\<close>

lemma run_steps_fail_at:
  assumes k: "k < length ps"
    and pre: "run_steps e cfg query model context sources_md 0 ctx [] (take k ps)
                = (ctx', done, None)"
    and fail: "run_step e cfg query model context sources_md ctx' k (ps ! k) = Inl x"
  shows "run_steps e cfg query model context sources_md 0 ctx [] ps = (ctx', done, Some x)"
    and "length done = k"
proof -
  from k have split: "ps = take k ps @ (ps ! k) # drop (Suc k) ps"
    by (simp add: id_take_nth_drop)
  from k have len: "length (take k ps) = k" by simp
  have "run_steps e cfg query model context sources_md 0 ctx [] (take k ps @ (ps ! k) # drop (Suc k) ps)
          = (ctx', done, Some x)"
    unfolding run_steps_append using pre fail len by simp
  with split show "run_steps e cfg query model context sources_md 0 ctx [] ps = (ctx', done, Some x)"
    by simp
  from run_steps_log [OF pre] len show "length done = k" by simp
qed

text \<open>
  C3, at a configuration without a "pipeline" section: \<open>get_pipeline_steps\<close> raises
  inside the \<open>try\<close>, the \<open>except\<close> block reads \<open>steps\<close> before any assignment to it,
  and the call ends in an exception instead of a result.
\<close>

theorem run_pipeline_raises_unbound_steps:
  "run_pipeline (local_env answering_server) no_pipeline_config ''What is entanglement?'' ''gemma3:4b''
     = Inl (UnboundLocalError ''steps'')"
  by (simp add: run_pipeline_def try_body_def get_pipeline_steps_def no_pipeline_config_def
                except_block_def)


lemma run_step_Inr:
  "run_step e cfg query model context sources_md ctx i step = Inr (ctx', entry) \<Longrightarrow>
   \<exists>step_name agent_name cls output.
      s_name step = Some step_name \<and> s_agent step = Some agent_name \<and>
      map_of AGENT_MAP agent_name = Some cls \<and>
      ctx' = ctx(output_key agent_name \<mapsto> output) \<and>
      r_name entry = step_name \<and> r_output entry = output \<and> r_step_number entry = i + 1"
  by (auto simp: run_step_def split: option.splits sum.splits)


lemma try_body_loop:
  assumes "get_pipeline_steps e cfg = Inr ps"
    and "retrieve e query 8 = Inr passages"
    and "step_names e ps = Inr ns"
    and "run_steps e cfg query model (join nl (map p_text passages))
           (sources_to_markdown (passage_sources passages)) 0
           (seed_context query (join nl (map p_text passages))
              (sources_to_markdown (passage_sources passages))) [] ps = (ctx', steps, err)"
  shows "try_body e cfg query model =
     (case err of
        Some x \<Rightarrow>
          Inl (\<lparr>l_context = Some (join nl (map p_text passages)),
                l_sources = Some (passage_sources passages),
                l_steps = Some steps\<rparr>, x)
      | None \<Rightarrow>
          Inr \<lparr>res_answer = ctx_get ctx' ''final_report''
                               ''Pipeline completed but no final report generated'',
               res_sources = passage_sources passages,
               res_debug_steps = steps,
               res_pipeline_complete = True,
               res_total_steps = length steps,
               res_partial_success = None,
               res_error = None,
               res_execution_summary =
                 Some \<lparr>total_time = sum_list (map r_execution_time steps),
                       steps_completed = length steps,
                       model_used = model\<rparr>\<rparr>)"
  using assms by (cases err) (simp_all add: try_body_def Let_def)



lemmas demo_eval =
  run_step_def step_prompt_def agent_run_def get_agent_prompt_def get_agent_parameters_def
  get_agent_config_def call_generate_def generate_def Let_def raise_for_status_def
  generate_except_def is_timeout_def is_connection_error_def kw_get_def key_error_def
  AGENT_MAP_def output_key_def demo_config_def demo_agent_def demo_step_def local_env_def
  get_pipeline_steps_def py_str_def str_int_def



lemma except_block_bound:
  "except_block e query model
      \<lparr>l_context = Some context, l_sources = Some sources, l_steps = Some steps\<rparr> x =
     (if steps \<noteq> [] then
        (case generate e FallbackCall (fallback_prompt query context steps)
                fallback_system_prompt model [] of
           Inl y \<Rightarrow>
             Inr \<lparr>res_answer = cross_mark @ '' Pipeline failed completely: '' @ error_msg steps x,
                  res_sources = sources,
                  res_debug_steps = [],
                  res_pipeline_complete = False,
                  res_total_steps = 0,
                  res_partial_success = Some False,
                  res_error = Some (error_msg steps x),
                  res_execution_summary = None\<rparr>
         | Inr fallback_response \<Rightarrow>
             Inr \<lparr>res_answer =
                    warning_sign @ '' Pipeline partially completed. Here''
                      @ squote @ ''s what was accomplished:'' @ nl @ nl @ fallback_response,
                  res_sources = sources,
                  res_debug_steps = steps,
                  res_pipeline_complete = False,
                  res_total_steps = length steps,
                  res_partial_success = Some True,
                  res_error = Some (error_msg steps x),
                  res_execution_summary = None\<rparr>)
      else
        Inr \<lparr>res_answer = cross_mark @ '' Pipeline failed completely: '' @ error_msg steps x,
             res_sources = sources,
             res_debug_steps = [],
             res_pipeline_complete = False,
             res_total_steps = 0,
             res_partial_success = Some False,
             res_error = Some (error_msg steps x),
             res_execution_summary = None\<rparr>)"
  by (simp add: except_block_def total_failure_def Let_def split: sum.splits)

text \<open>
  C1. The run reaches the loop, the first k-1 steps complete and step k raises x.
  If k > 1 and the fallback generation call returns a text, the result is the
  partial failure: the k-1 log entries, pipeline\_complete false, and the answer made
  of the warning line followed by the fallback text. If k = 1 the result is the total
  failure, whatever the fallback call would do. If k > 1 and the fallback call raises,
  the result is the total failure.
\<close>

theorem step_failure_outcome:
  assumes "get_pipeline_steps e cfg = Inr ps"
    and "retrieve e query 8 = Inr passages"
    and "step_names e ps = Inr ns"
    and "1 \<le> k" and "k \<le> length ps"
    and "run_steps e cfg query model (join nl (map p_text passages))
           (sources_to_markdown (passage_sources passages)) 0
           (seed_context query (join nl (map p_text passages))
              (sources_to_markdown (passage_sources passages))) [] (take (k - 1) ps)
           = (ctx', done, None)"
    and "run_step e cfg query model (join nl (map p_text passages))
           (sources_to_markdown (passage_sources passages)) ctx' (k - 1) (ps ! (k - 1)) = Inl x"
  shows "(1 < k \<and> generate e FallbackCall
                    (fallback_prompt query (join nl (map p_text passages)) done)
                    fallback_system_prompt model [] = Inr fallback_response \<longrightarrow>
            run_pipeline e cfg query model =
              Inr \<lparr>res_answer =
                     warning_sign @ '' Pipeline partially completed. Here''
                       @ squote @ ''s what was accomplished:'' @ nl @ nl @ fallback_response,
                   res_sources = passage_sources passages,
                   res_debug_steps = done,
                   res_pipeline_complete = False,
                   res_total_steps = k - 1,
                   res_partial_success = Some True,
                   res_error = Some (''Pipeline failed at step '' @ str_nat k @ '': '' @ exc_str x),
                   res_execution_summary = None\<rparr>
            \<and> length done = k - 1) \<and>
         (k = 1 \<or> (1 < k \<and> generate e FallbackCall
                    (fallback_prompt query (join nl (map p_text passages)) done)
                    fallback_system_prompt model [] = Inl y) \<longrightarrow>
            run_pipeline e cfg query model =
              Inr \<lparr>res_answer = cross_mark @ '' Pipeline failed completely: ''
                                  @ ''Pipeline failed at step '' @ str_nat k @ '': '' @ exc_str x,
                   res_sources = passage_sources passages,
                   res_debug_steps = [],
                   res_pipeline_complete = False,
                   res_total_steps = 0,
                   res_partial_success = Some False,
                   res_error = Some (''Pipeline failed at step '' @ str_nat k @ '': '' @ exc_str x),
                   res_execution_summary = None\<rparr>)"
proof -
  from assms(4,5) have k: "k - 1 < length ps" by simp
  note loop = run_steps_fail_at [OF k assms(6) assms(7)]
  from loop(2) assms(4) have len: "length done + 1 = k" by simp
  then have msg: "error_msg done x = ''Pipeline failed at step '' @ str_nat k @ '': '' @ exc_str x"
    by (simp add: error_msg_def)
  have run: "run_pipeline e cfg query model =
               except_block e query model
                 \<lparr>l_context = Some (join nl (map p_text passages)),
                  l_sources = Some (passage_sources passages),
                  l_steps = Some done\<rparr> x"
    using try_body_loop [OF assms(1,2,3) loop(1)] by (simp add: run_pipeline_def)
  show ?thesis
  proof (intro conjI impI)
    assume a: "1 < k \<and> generate e FallbackCall
                    (fallback_prompt query (join nl (map p_text passages)) done)
                    fallback_system_prompt model [] = Inr fallback_response"
    with len have "done \<noteq> []" by auto
    with a msg loop(2) show "run_pipeline e cfg query model =
              Inr \<lparr>res_answer =
                     warning_sign @ '' Pipeline partially completed. Here''
                       @ squote @ ''s what was accomplished:'' @ nl @ nl @ fallback_response,
                   res_sources = passage_sources passages,
                   res_debug_steps = done,
                   res_pipeline_complete = False,
                   res_total_steps = k - 1,
                   res_partial_success = Some True,
                   res_error = Some (''Pipeline failed at step '' @ str_nat k @ '': '' @ exc_str x),
                   res_execution_summary = None\<rparr>"
      by (simp add: run except_block_bound)
    from loop(2) show "length done = k - 1" .
  next
    assume a: "k = 1 \<or> (1 < k \<and> generate e FallbackCall
                    (fallback_prompt query (join nl (map p_text passages)) done)
                    fallback_system_prompt model [] = Inl y)"
    then show "run_pipeline e cfg query model =
              Inr \<lparr>res_answer = cross_mark @ '' Pipeline failed completely: ''
                                  @ ''Pipeline failed at step '' @ str_nat k @ '': '' @ exc_str x,
                   res_sources = passage_sources passages,
                   res_debug_steps = [],
                   res_pipeline_complete = False,
                   res_total_steps = 0,
                   res_partial_success = Some False,
                   res_error = Some (''Pipeline failed at step '' @ str_nat k @ '': '' @ exc_str x),
                   res_execution_summary = None\<rparr>"
    proof
      assume "k = 1"
      with loop(2) have "done = []" by simp
      with msg show ?thesis by (simp add: run except_block_bound)
    next
      assume "1 < k \<and> generate e FallbackCall
                    (fallback_prompt query (join nl (map p_text passages)) done)
                    fallback_system_prompt model [] = Inl y"
      with msg show ?thesis by (auto simp: run except_block_bound)
    qed
  qed
qed


theorem step_failure_outcome_witness:
  "run_pipeline (local_env second_step_timeout_server)
       (demo_config [demo_step ''Decompose'' ''decomposer'', demo_step ''Critique'' ''critique''])
       ''q'' ''m''
     = Inr \<lparr>res_answer = warning_sign @ '' Pipeline partially completed. Here''
                            @ squote @ ''s what was accomplished:'' @ nl @ nl @ ''reply'',
            res_sources = [],
            res_debug_steps =
              [\<lparr>r_name = ''Decompose'', r_output = ''reply'', r_markdown = True,
                r_step_number = 1, r_agent_name = ''decomposer'', r_estimated_time = VInt 2,
                r_description = VStr [], r_execution_time = 1\<rparr>],
            res_pipeline_complete = False,
            res_total_steps = 1,
            res_partial_success = Some True,
            res_error = Some (''Pipeline failed at step 2: ''
                               @ ''Ollama request timed out after 120 seconds. Model: m''),
            res_execution_summary = None\<rparr> \<and>
   run_pipeline (local_env read_timeout_server)
       (demo_config [demo_step ''Decompose'' ''decomposer'', demo_step ''Critique'' ''critique''])
       ''q'' ''m''
     = Inr \<lparr>res_answer = cross_mark @ '' Pipeline failed completely: ''
                            @ ''Pipeline failed at step 1: ''
                            @ ''Ollama request timed out after 120 seconds. Model: m'',
            res_sources = [],
            res_debug_steps = [],
            res_pipeline_complete = False,
            res_total_steps = 0,
            res_partial_success = Some False,
            res_error = Some (''Pipeline failed at step 1: ''
                               @ ''Ollama request timed out after 120 seconds. Model: m''),
            res_execution_summary = None\<rparr> \<and>
   run_pipeline (local_env first_call_server)
       (demo_config [demo_step ''Decompose'' ''decomposer'', demo_step ''Critique'' ''critique''])
       ''q'' ''m''
     = Inr \<lparr>res_answer = cross_mark @ '' Pipeline failed completely: ''
                            @ ''Pipeline failed at step 2: ''
                            @ ''Could not connect to Ollama server at http://localhost:11434'',
            res_sources = [],
            res_debug_steps = [],
            res_pipeline_complete = False,
            res_total_steps = 0,
            res_partial_success = Some False,
            res_error = Some (''Pipeline failed at step 2: ''
                               @ ''Could not connect to Ollama server at http://localhost:11434''),
            res_execution_summary = None\<rparr>"
proof -
  let ?ps = "[demo_step ''Decompose'' ''decomposer'', demo_step ''Critique'' ''critique'']"
  let ?cfg = "demo_config ?ps"
  let ?joined = "join nl (map p_text ([]::passage list))"
  let ?md = "sources_to_markdown (passage_sources [])"
  let ?seed = "seed_context ''q'' ?joined ?md"
  let ?entry = "\<lparr>r_name = ''Decompose'', r_output = ''reply'', r_markdown = True,
                r_step_number = 1, r_agent_name = ''decomposer'', r_estimated_time = VInt 2,
                r_description = VStr [], r_execution_time = 1\<rparr>"
  let ?timed_out = "PyExc Exception ''Ollama request timed out after 120 seconds. Model: m''"
  let ?refused = "PyExc Exception ''Could not connect to Ollama server at http://localhost:11434''"
  have cfg: "get_pipeline_steps e ?cfg = Inr ?ps" for e
    by (simp add: get_pipeline_steps_def demo_config_def)
  have ret: "retrieve (local_env server) ''q'' 8 = Inr []" for server
    by (simp add: local_env_def)
  have names: "step_names e ?ps = Inr [''Decompose'', ''Critique'']" for e
    by (simp add: demo_step_def)
  have one: "(1::nat) \<le> 1" and two: "(1::nat) \<le> 2" and len1: "1 \<le> length ?ps"
    and len2: "2 \<le> length ?ps"
    by simp_all
  \<comment> \<open>step 2 times out, the fallback call answers\<close>
  let ?a = "local_env second_step_timeout_server"
  have a_pre: "run_steps ?a ?cfg ''q'' ''m'' ?joined ?md 0 ?seed [] (take (2 - 1) ?ps)
                 = (?seed(''breakdown'' \<mapsto> ''reply''), [?entry], None)"
    by (simp add: demo_eval second_step_timeout_server_def)
  have a_fail: "run_step ?a ?cfg ''q'' ''m'' ?joined ?md (?seed(''breakdown'' \<mapsto> ''reply''))
                  (2 - 1) (?ps ! (2 - 1)) = Inl ?timed_out"
    by (simp add: demo_eval second_step_timeout_server_def str_nat.simps)
  have a_fb: "generate ?a FallbackCall (fallback_prompt ''q'' ?joined [?entry])
                fallback_system_prompt ''m'' [] = Inr ''reply''"
    by (simp add: demo_eval second_step_timeout_server_def)
  note a = step_failure_outcome [OF cfg ret names two len2 a_pre a_fail,
                                 where fallback_response = "''reply''", THEN conjunct1]
  \<comment> \<open>step 1 times out\<close>
  let ?b = "local_env read_timeout_server"
  have b_pre: "run_steps ?b ?cfg ''q'' ''m'' ?joined ?md 0 ?seed [] (take (1 - 1) ?ps)
                 = (?seed, [], None)"
    by simp
  have b_fail: "run_step ?b ?cfg ''q'' ''m'' ?joined ?md ?seed (1 - 1) (?ps ! (1 - 1))
                  = Inl ?timed_out"
    by (simp add: demo_eval read_timeout_server_def str_nat.simps)
  note b = step_failure_outcome [OF cfg ret names one len1 b_pre b_fail, THEN conjunct2]
  \<comment> \<open>the server is gone after step 1: step 2 and the fallback call both fail\<close>
  let ?c = "local_env first_call_server"
  have c_pre: "run_steps ?c ?cfg ''q'' ''m'' ?joined ?md 0 ?seed [] (take (2 - 1) ?ps)
                 = (?seed(''breakdown'' \<mapsto> ''reply''), [?entry], None)"
    by (simp add: demo_eval first_call_server_def)
  have c_fail: "run_step ?c ?cfg ''q'' ''m'' ?joined ?md (?seed(''breakdown'' \<mapsto> ''reply''))
                  (2 - 1) (?ps ! (2 - 1)) = Inl ?refused"
    by (simp add: demo_eval first_call_server_def)
  have c_fb: "generate ?c FallbackCall (fallback_prompt ''q'' ?joined [?entry])
                fallback_system_prompt ''m'' [] = Inl ?refused"
    by (simp add: demo_eval first_call_server_def)
  note c = step_failure_outcome [OF cfg ret names two len2 c_pre c_fail,
                                 where y = ?refused, THEN conjunct2]
  from a a_fb have ra: "run_pipeline ?a ?cfg ''q'' ''m''
     = Inr \<lparr>res_answer = warning_sign @ '' Pipeline partially completed. Here''
                            @ squote @ ''s what was accomplished:'' @ nl @ nl @ ''reply'',
            res_sources = [],
            res_debug_steps = [?entry],
            res_pipeline_complete = False,
            res_total_steps = 1,
            res_partial_success = Some True,
            res_error = Some (''Pipeline failed at step 2: ''
                               @ ''Ollama request timed out after 120 seconds. Model: m''),
            res_execution_summary = None\<rparr>"
    by (simp add: passage_sources_def str_nat.simps)
  from b have rb: "run_pipeline ?b ?cfg ''q'' ''m''
     = Inr \<lparr>res_answer = cross_mark @ '' Pipeline failed completely: ''
                            @ ''Pipeline failed at step 1: ''
                            @ ''Ollama request timed out after 120 seconds. Model: m'',
            res_sources = [],
            res_debug_steps = [],
            res_pipeline_complete = False,
            res_total_steps = 0,
            res_partial_success = Some False,
            res_error = Some (''Pipeline failed at step 1: ''
                               @ ''Ollama request timed out after 120 seconds. Model: m''),
            res_execution_summary = None\<rparr>"
    by (simp add: passage_sources_def str_nat.simps)
  from c c_fb have rc: "run_pipeline ?c ?cfg ''q'' ''m''
     = Inr \<lparr>res_answer = cross_mark @ '' Pipeline failed completely: ''
                            @ ''Pipeline failed at step 2: ''
                            @ ''Could not connect to Ollama server at http://localhost:11434'',
            res_sources = [],
            res_debug_steps = [],
            res_pipeline_complete = False,
            res_total_steps = 0,
            res_partial_success = Some False,
            res_error = Some (''Pipeline failed at step 2: ''
                               @ ''Could not connect to Ollama server at http://localhost:11434''),
            res_execution_summary = None\<rparr>"
    by (simp add: passage_sources_def str_nat.simps)
  from ra rb rc show ?thesis by blast
qed








lemma run_step_dom:
  assumes "run_step e cfg query model context sources_md ctx i step = Inr (ctx', entry)"
  shows "\<exists>k. step_output_key step = Some k \<and> dom ctx' = insert k (dom ctx)"
proof -
  from run_step_Inr [OF assms] obtain agent_name out where
    "s_agent step = Some agent_name" "ctx' = ctx(output_key agent_name \<mapsto> out)"
    by blast
  then show ?thesis by (simp add: step_output_key_def)
qed

lemma run_steps_dom:
  "run_steps e cfg query model context sources_md i ctx steps ps = (ctx', steps', None) \<Longrightarrow>
   dom ctx' = dom ctx \<union> set (List.map_filter step_output_key ps)"
proof (induction ps arbitrary: i ctx steps)
  case Nil
  then show ?case by simp
next
  case (Cons step rest)
  show ?case
  proof (cases "run_step e cfg query model context sources_md ctx i step")
    case (Inl x)
    with Cons.prems show ?thesis by simp
  next
    case (Inr pr)
    obtain c entry where pr: "pr = (c, entry)" by (cases pr)
    from run_step_dom [OF Inr [unfolded pr]] obtain k where
      k: "step_output_key step = Some k" "dom c = insert k (dom ctx)" by blast
    from Cons.prems Inr pr
    have "run_steps e cfg query model context sources_md (Suc i) c (steps @ [entry]) rest
            = (ctx', steps', None)" by simp
    from Cons.IH [OF this] k show ?thesis
      by simp
  qed
qed

text \<open>
  C5, as the code has it. After the first i steps have completed, the keys of the context
  are the three seed keys and the output keys of those i steps, and no others. A further
  completed step writes exactly one key, its output key, and removes none: the context
  gains one key when that key is new, and keeps the same keys (the value is overwritten)
  when an earlier step with the same agent has written it already.
\<close>

theorem context_keys_after_steps:
  assumes "run_steps e cfg query model context sources_md 0
             (seed_context query context sources_md) [] (take i ps) = (ctx_i, entries, None)"
  shows "dom ctx_i = {''query'', ''context'', ''sources_md''}
                       \<union> set (List.map_filter step_output_key (take i ps)) \<and>
         (run_step e cfg query model context sources_md ctx_i i step = Inr (ctx', entry) \<longrightarrow>
            (\<exists>k. step_output_key step = Some k \<and>
                 dom ctx' = insert k (dom ctx_i) \<and>
                 dom ctx_i \<subseteq> dom ctx' \<and>
                 (k \<notin> dom ctx_i \<longrightarrow> card (dom ctx') = card (dom ctx_i) + 1) \<and>
                 (k \<in> dom ctx_i \<longrightarrow> dom ctx' = dom ctx_i)))"
proof (intro conjI impI)
  have seed: "dom (seed_context query context sources_md) = {''query'', ''context'', ''sources_md''}"
    by (auto simp: seed_context_def)
  from run_steps_dom [OF assms] seed
  show keys: "dom ctx_i = {''query'', ''context'', ''sources_md''}
                       \<union> set (List.map_filter step_output_key (take i ps))"
    by simp
  then have fin: "finite (dom ctx_i)" by simp
  assume "run_step e cfg query model context sources_md ctx_i i step = Inr (ctx', entry)"
  from run_step_dom [OF this] obtain k where
    k: "step_output_key step = Some k" "dom ctx' = insert k (dom ctx_i)" by blast
  from k(2) have "dom ctx_i \<subseteq> dom ctx'" by auto
  moreover from k(2) fin have "k \<notin> dom ctx_i \<longrightarrow> card (dom ctx') = card (dom ctx_i) + 1"
    by simp
  moreover from k(2) have "k \<in> dom ctx_i \<longrightarrow> dom ctx' = dom ctx_i" by auto
  ultimately show "\<exists>k. step_output_key step = Some k \<and>
                 dom ctx' = insert k (dom ctx_i) \<and>
                 dom ctx_i \<subseteq> dom ctx' \<and>
                 (k \<notin> dom ctx_i \<longrightarrow> card (dom ctx') = card (dom ctx_i) + 1) \<and>
                 (k \<in> dom ctx_i \<longrightarrow> dom ctx' = dom ctx_i)"
    using k by blast
qed

theorem context_keys_after_steps_witness:
  "dom ((seed_context ''q'' [] ''No sources available'')
           (''breakdown'' \<mapsto> ''reply'', ''critique'' \<mapsto> ''reply''))
     = {''query'', ''context'', ''sources_md'', ''breakdown'', ''critique''} \<and>
   card (dom ((seed_context ''q'' [] ''No sources available'')
           (''breakdown'' \<mapsto> ''reply'', ''critique'' \<mapsto> ''reply'', ''synthesis'' \<mapsto> ''reply'')))
     = card (dom ((seed_context ''q'' [] ''No sources available'')
           (''breakdown'' \<mapsto> ''reply'', ''critique'' \<mapsto> ''reply''))) + 1 \<and>
   dom ((seed_context ''q'' [] ''No sources available'')
           (''breakdown'' \<mapsto> ''reply'', ''critique'' \<mapsto> ''reply'', ''critique'' \<mapsto> ''reply''))
     = dom ((seed_context ''q'' [] ''No sources available'')
           (''breakdown'' \<mapsto> ''reply'', ''critique'' \<mapsto> ''reply''))"
proof -
  let ?e = "local_env answering_server"
  let ?ps = "[demo_step ''Decompose'' ''decomposer'', demo_step ''Critique'' ''critique'',
              demo_step ''Synthesize'' ''synthesis'']"
  let ?cfg = "demo_config ?ps"
  let ?seed = "seed_context ''q'' [] ''No sources available''"
  let ?ctx2 = "?seed(''breakdown'' \<mapsto> ''reply'', ''critique'' \<mapsto> ''reply'')"
  let ?entries = "[\<lparr>r_name = ''Decompose'', r_output = ''reply'', r_markdown = True,
                r_step_number = 1, r_agent_name = ''decomposer'', r_estimated_time = VInt 2,
                r_description = VStr [], r_execution_time = 1\<rparr>,
               \<lparr>r_name = ''Critique'', r_output = ''reply'', r_markdown = True,
                r_step_number = 2, r_agent_name = ''critique'', r_estimated_time = VInt 2,
                r_description = VStr [], r_execution_time = 1\<rparr>]"
  let ?entry = "\<lparr>r_name = ''Synthesize'', r_output = ''reply'', r_markdown = True,
                r_step_number = 3, r_agent_name = ''synthesis'', r_estimated_time = VInt 2,
                r_description = VStr [], r_execution_time = 1\<rparr>"
  let ?again = "\<lparr>r_name = ''Critique again'', r_output = ''reply'', r_markdown = True,
                r_step_number = 3, r_agent_name = ''critique'', r_estimated_time = VInt 2,
                r_description = VStr [], r_execution_time = 1\<rparr>"
  have h: "run_steps ?e ?cfg ''q'' ''m'' [] ''No sources available'' 0 ?seed [] (take 2 ?ps)
             = (?ctx2, ?entries, None)"
    by (simp add: demo_eval answering_server_def)
  have st: "run_step ?e ?cfg ''q'' ''m'' [] ''No sources available'' ?ctx2 2
              (demo_step ''Synthesize'' ''synthesis'')
              = Inr (?ctx2(''synthesis'' \<mapsto> ''reply''), ?entry)"
    by (simp add: demo_eval answering_server_def)
  have st': "run_step ?e ?cfg ''q'' ''m'' [] ''No sources available'' ?ctx2 2
              (demo_step ''Critique again'' ''critique'')
              = Inr (?ctx2(''critique'' \<mapsto> ''reply''), ?again)"
    by (simp add: demo_eval answering_server_def)
  have key: "step_output_key (demo_step ''Synthesize'' ''synthesis'') = Some ''synthesis''"
    by (simp add: step_output_key_def demo_step_def output_key_def)
  have key': "step_output_key (demo_step ''Critique again'' ''critique'') = Some ''critique''"
    by (simp add: step_output_key_def demo_step_def output_key_def)
  note inst = context_keys_after_steps [OF h, of "demo_step ''Synthesize'' ''synthesis''"
                                          "?ctx2(''synthesis'' \<mapsto> ''reply'')" ?entry]
  note inst' = context_keys_after_steps [OF h, of "demo_step ''Critique again'' ''critique''"
                                          "?ctx2(''critique'' \<mapsto> ''reply'')" ?again]
  from inst have a: "dom ?ctx2 = {''query'', ''context'', ''sources_md'', ''breakdown'', ''critique''}"
    by (simp add: step_output_key_def demo_step_def output_key_def insert_commute)
  from inst st key
  have b: "''synthesis'' \<notin> dom ?ctx2 \<longrightarrow>
           card (dom (?ctx2(''synthesis'' \<mapsto> ''reply''))) = card (dom ?ctx2) + 1"
    by simp
  from inst' st' key'
  have c: "''critique'' \<in> dom ?ctx2 \<longrightarrow> dom (?ctx2(''critique'' \<mapsto> ''reply'')) = dom ?ctx2"
    by simp
  have "''synthesis'' \<notin> dom ?ctx2" "''critique'' \<in> dom ?ctx2"
    unfolding a by simp_all
  with a b c show ?thesis by blast
qed

text \<open>
  C5 as stated fails when two steps use the same agent: after the first decomposer step
  the context has four keys, and after the second it has the same four.
\<close>

theorem one_new_key_per_step_counterexample:
  "run_steps (local_env answering_server)
       (demo_config [demo_step ''Decompose'' ''decomposer'', demo_step ''Again'' ''decomposer''])
       ''q'' ''m'' [] ''No sources available'' 0
       (seed_context ''q'' [] ''No sources available'') []
       [demo_step ''Decompose'' ''decomposer'']
     = ((seed_context ''q'' [] ''No sources available'')(''breakdown'' \<mapsto> ''reply''),
        [\<lparr>r_name = ''Decompose'', r_output = ''reply'', r_markdown = True,
          r_step_number = 1, r_agent_name = ''decomposer'', r_estimated_time = VInt 2,
          r_description = VStr [], r_execution_time = 1\<rparr>],
        None) \<and>
   run_steps (local_env answering_server)
       (demo_config [demo_step ''Decompose'' ''decomposer'', demo_step ''Again'' ''decomposer''])
       ''q'' ''m'' [] ''No sources available'' 0
       (seed_context ''q'' [] ''No sources available'') []
       [demo_step ''Decompose'' ''decomposer'', demo_step ''Again'' ''decomposer'']
     = ((seed_context ''q'' [] ''No sources available'')(''breakdown'' \<mapsto> ''reply''),
        [\<lparr>r_name = ''Decompose'', r_output = ''reply'', r_markdown = True,
          r_step_number = 1, r_agent_name = ''decomposer'', r_estimated_time = VInt 2,
          r_description = VStr [], r_execution_time = 1\<rparr>,
         \<lparr>r_name = ''Again'', r_output = ''reply'', r_markdown = True,
          r_step_number = 2, r_agent_name = ''decomposer'', r_estimated_time = VInt 2,
          r_description = VStr [], r_execution_time = 1\<rparr>],
        None) \<and>
   dom ((seed_context ''q'' [] ''No sources available'')(''breakdown'' \<mapsto> ''reply''))
     = {''query'', ''context'', ''sources_md'', ''breakdown''}"
  by (auto simp: demo_eval answering_server_def seed_context_def)

text \<open>
  C6. Rendering a step's prompt with one of the keys breakdown, critique, synthesis
  absent from the context gives the same text as rendering with "N/A" stored under that
  key. Rendering raises only when the agent's configuration has no description, whatever
  the context holds. For the critique, synthesis and report templates with their
  upstream keys absent, the rendered text has "N/A" in each of those places.
\<close>

theorem missing_keys_render_na:
  "(k \<in> {''breakdown'', ''critique'', ''synthesis''} \<and> ctx k = None \<longrightarrow>
      step_prompt e ac agent_name step_name query context sources_md ctx =
      step_prompt e ac agent_name step_name query context sources_md (ctx(k \<mapsto> ''N/A''))) \<and>
   ((\<exists>prompt. step_prompt e ac agent_name step_name query context sources_md ctx = Inr prompt)
      = (a_description ac \<noteq> None)) \<and>
   (a_description ac = Some d \<and> ctx ''breakdown'' = None \<longrightarrow>
      step_prompt e ac ''critique'' step_name query context sources_md ctx =
        Inr (''## '' @ step_name @ nl @ nl @ d @ nl @ nl @ ''### Breakdown'' @ nl @ ''N/A''
             @ nl @ nl @ ''### Context'' @ nl @ context @ nl @ nl
             @ ''Please review and improve this research framework.'')) \<and>
   (a_description ac = Some d \<and> ctx ''breakdown'' = None \<and> ctx ''critique'' = None \<longrightarrow>
      step_prompt e ac ''synthesis'' step_name query context sources_md ctx =
        Inr (''## '' @ step_name @ nl @ nl @ d @ nl @ nl @ ''### Breakdown'' @ nl @ ''N/A''
             @ nl @ nl @ ''### Critique'' @ nl @ ''N/A''
             @ nl @ nl @ ''### Context'' @ nl @ context @ nl @ nl
             @ ''Please synthesize this information into a comprehensive analysis.'')) \<and>
   (a_description ac = Some d \<and> ctx ''breakdown'' = None \<and> ctx ''critique'' = None
      \<and> ctx ''synthesis'' = None \<longrightarrow>
      step_prompt e ac ''report_formatter'' step_name query context sources_md ctx =
        Inr (''## '' @ step_name @ nl @ nl @ d @ nl @ nl @ ''**Topic:** '' @ query
             @ nl @ nl @ ''**Breakdown:** '' @ ''N/A''
             @ nl @ nl @ ''**Critique:** '' @ ''N/A''
             @ nl @ nl @ ''**Synthesis:** '' @ ''N/A''
             @ nl @ nl @ ''**Sources:** '' @ sources_md @ nl @ nl
             @ ''Please create a comprehensive, professional report.''))"
proof (intro conjI impI)
  assume "k \<in> {''breakdown'', ''critique'', ''synthesis''} \<and> ctx k = None"
  then have "render_prompt agent_name step_name d' query context sources_md ctx =
             render_prompt agent_name step_name d' query context sources_md (ctx(k \<mapsto> ''N/A''))"
    for d'
    by (auto simp: render_prompt_def ctx_get_def)
  then show "step_prompt e ac agent_name step_name query context sources_md ctx =
      step_prompt e ac agent_name step_name query context sources_md (ctx(k \<mapsto> ''N/A''))"
    by (simp add: step_prompt_def split: option.splits)
next
  show "(\<exists>prompt. step_prompt e ac agent_name step_name query context sources_md ctx = Inr prompt)
      = (a_description ac \<noteq> None)"
    by (auto simp: step_prompt_def key_error_def split: option.splits)
qed (simp_all add: step_prompt_def render_prompt_def ctx_get_def)

theorem missing_keys_render_na_witness:
  "step_prompt (local_env answering_server) demo_agent ''critique'' ''Critique'' ''q'' ''c'' ''s''
       (seed_context ''q'' ''c'' ''s'')
     = Inr (''## Critique'' @ nl @ nl @ ''Does its part.'' @ nl @ nl @ ''### Breakdown'' @ nl
            @ ''N/A'' @ nl @ nl @ ''### Context'' @ nl @ ''c'' @ nl @ nl
            @ ''Please review and improve this research framework.'') \<and>
   step_prompt (local_env answering_server) demo_agent ''critique'' ''Critique'' ''q'' ''c'' ''s''
       (seed_context ''q'' ''c'' ''s'')
     = step_prompt (local_env answering_server) demo_agent ''critique'' ''Critique'' ''q'' ''c'' ''s''
       ((seed_context ''q'' ''c'' ''s'')(''breakdown'' \<mapsto> ''N/A''))"
proof -
  have d: "a_description demo_agent = Some ''Does its part.''"
    by (simp add: demo_agent_def)
  have absent: "seed_context ''q'' ''c'' ''s'' ''breakdown'' = None"
    by (simp add: seed_context_def)
  have mem: "''breakdown'' \<in> {''breakdown'', ''critique'', ''synthesis''}"
    by simp
  note inst = missing_keys_render_na
                [of "''breakdown''" "seed_context ''q'' ''c'' ''s''" "local_env answering_server"
                    demo_agent "''critique''" "''Critique''" "''q''" "''c''" "''s''"
                    "''Does its part.''"]
  from inst [THEN conjunct2, THEN conjunct2, THEN conjunct1, rule_format, OF conjI [OF d absent]]
  have c1: "step_prompt (local_env answering_server) demo_agent ''critique'' ''Critique'' ''q'' ''c'' ''s''
       (seed_context ''q'' ''c'' ''s'')
     = Inr (''## Critique'' @ nl @ nl @ ''Does its part.'' @ nl @ nl @ ''### Breakdown'' @ nl
            @ ''N/A'' @ nl @ nl @ ''### Context'' @ nl @ ''c'' @ nl @ nl
            @ ''Please review and improve this research framework.'')"
    by simp
  from inst [THEN conjunct1, rule_format, OF conjI [OF mem absent]]
  have c2: "step_prompt (local_env answering_server) demo_agent ''critique'' ''Critique'' ''q'' ''c'' ''s''
       (seed_context ''q'' ''c'' ''s'')
     = step_prompt (local_env answering_server) demo_agent ''critique'' ''Critique'' ''q'' ''c'' ''s''
       ((seed_context ''q'' ''c'' ''s'')(''breakdown'' \<mapsto> ''N/A''))" .
  show ?thesis by (rule conjI [OF c1 c2])
qed


end
